theory Spec2Isabelle
  imports Complex_Main
begin

section \<open>JavaScript numbers\<close>

text \<open>
  A JavaScript number is an IEEE-754 double: a finite value, one of the two infinities,
  or NaN. The model keeps these four kinds apart, because the program branches on them
  (\<^verbatim>\<open>isFinite\<close>, comparisons that are false on NaN, division by zero), and takes
  the finite values to be the reals: rounding (of doubles, and of the single-precision
  cells of a \<^verbatim>\<open>Float32Array\<close>) and overflow of finite arithmetic to an infinity are
  outside the model, and there is one zero (IEEE's negative zero is identified with it;
  a division by zero takes the sign of its numerator).
\<close>

datatype jsnum = Fin real | PInf | NInf | NaN

fun js_neg :: "jsnum \<Rightarrow> jsnum" where
  "js_neg (Fin a) = Fin (- a)"
| "js_neg PInf = NInf"
| "js_neg NInf = PInf"
| "js_neg NaN = NaN"

fun js_add :: "jsnum \<Rightarrow> jsnum \<Rightarrow> jsnum" where
  "js_add NaN _ = NaN"
| "js_add _ NaN = NaN"
| "js_add (Fin a) (Fin b) = Fin (a + b)"
| "js_add PInf NInf = NaN"
| "js_add NInf PInf = NaN"
| "js_add PInf _ = PInf"
| "js_add _ PInf = PInf"
| "js_add NInf _ = NInf"
| "js_add _ NInf = NInf"

definition js_sub :: "jsnum \<Rightarrow> jsnum \<Rightarrow> jsnum" where
  "js_sub a b = js_add a (js_neg b)"

fun js_mul :: "jsnum \<Rightarrow> jsnum \<Rightarrow> jsnum" where
  "js_mul NaN _ = NaN"
| "js_mul _ NaN = NaN"
| "js_mul (Fin a) (Fin b) = Fin (a * b)"
| "js_mul (Fin a) PInf = (if a = 0 then NaN else if 0 < a then PInf else NInf)"
| "js_mul (Fin a) NInf = (if a = 0 then NaN else if 0 < a then NInf else PInf)"
| "js_mul PInf (Fin b) = (if b = 0 then NaN else if 0 < b then PInf else NInf)"
| "js_mul NInf (Fin b) = (if b = 0 then NaN else if 0 < b then NInf else PInf)"
| "js_mul PInf PInf = PInf"
| "js_mul PInf NInf = NInf"
| "js_mul NInf PInf = NInf"
| "js_mul NInf NInf = PInf"

fun js_div :: "jsnum \<Rightarrow> jsnum \<Rightarrow> jsnum" where
  "js_div NaN _ = NaN"
| "js_div _ NaN = NaN"
| "js_div (Fin a) (Fin b) =
     (if b = 0 then (if a = 0 then NaN else if 0 < a then PInf else NInf)
      else Fin (a / b))"
| "js_div (Fin a) PInf = Fin 0"
| "js_div (Fin a) NInf = Fin 0"
| "js_div PInf (Fin b) = (if 0 \<le> b then PInf else NInf)"
| "js_div NInf (Fin b) = (if 0 \<le> b then NInf else PInf)"
| "js_div PInf PInf = NaN"
| "js_div PInf NInf = NaN"
| "js_div NInf PInf = NaN"
| "js_div NInf NInf = NaN"

text \<open>The relational operators: every comparison with NaN is false.\<close>

fun js_lt :: "jsnum \<Rightarrow> jsnum \<Rightarrow> bool" where
  "js_lt NaN _ = False"
| "js_lt _ NaN = False"
| "js_lt (Fin a) (Fin b) = (a < b)"
| "js_lt (Fin a) PInf = True"
| "js_lt (Fin a) NInf = False"
| "js_lt PInf _ = False"
| "js_lt NInf (Fin b) = True"
| "js_lt NInf PInf = True"
| "js_lt NInf NInf = False"

fun js_le :: "jsnum \<Rightarrow> jsnum \<Rightarrow> bool" where
  "js_le NaN _ = False"
| "js_le _ NaN = False"
| "js_le (Fin a) (Fin b) = (a \<le> b)"
| "js_le (Fin a) PInf = True"
| "js_le (Fin a) NInf = False"
| "js_le PInf (Fin b) = False"
| "js_le PInf PInf = True"
| "js_le PInf NInf = False"
| "js_le NInf _ = True"

definition js_gt :: "jsnum \<Rightarrow> jsnum \<Rightarrow> bool" where
  "js_gt a b = js_lt b a"

definition js_ge :: "jsnum \<Rightarrow> jsnum \<Rightarrow> bool" where
  "js_ge a b = js_le b a"

text \<open>\<^verbatim>\<open>Math.max\<close>, \<^verbatim>\<open>Math.min\<close>, \<^verbatim>\<open>Math.floor\<close>, \<^verbatim>\<open>Math.sqrt\<close>, \<^verbatim>\<open>isFinite\<close>.\<close>

fun Math_max :: "jsnum \<Rightarrow> jsnum \<Rightarrow> jsnum" where
  "Math_max NaN _ = NaN"
| "Math_max _ NaN = NaN"
| "Math_max a b = (if js_lt a b then b else a)"

fun Math_min :: "jsnum \<Rightarrow> jsnum \<Rightarrow> jsnum" where
  "Math_min NaN _ = NaN"
| "Math_min _ NaN = NaN"
| "Math_min a b = (if js_lt b a then b else a)"

fun Math_floor :: "jsnum \<Rightarrow> jsnum" where
  "Math_floor (Fin a) = Fin (of_int \<lfloor>a\<rfloor>)"
| "Math_floor x = x"

fun Math_sqrt :: "jsnum \<Rightarrow> jsnum" where
  "Math_sqrt (Fin a) = (if a < 0 then NaN else Fin (sqrt a))"
| "Math_sqrt PInf = PInf"
| "Math_sqrt NInf = NaN"
| "Math_sqrt NaN = NaN"

fun isFinite :: "jsnum \<Rightarrow> bool" where
  "isFinite (Fin a) = True"
| "isFinite x = False"

text \<open>Truthiness of a number (zero and NaN are falsy), and \<^verbatim>\<open>x !== 0\<close>.\<close>

fun truthy :: "jsnum \<Rightarrow> bool" where
  "truthy (Fin a) = (a \<noteq> 0)"
| "truthy NaN = False"
| "truthy x = True"

definition js_or :: "jsnum \<Rightarrow> jsnum \<Rightarrow> jsnum" where
  "js_or a b = (if truthy a then a else b)"

fun nonzero :: "jsnum \<Rightarrow> bool" where
  "nonzero (Fin a) = (a \<noteq> 0)"
| "nonzero x = True"

section \<open>pitch.js\<close>

text \<open>
  A \<^verbatim>\<open>Float32Array\<close> is a list of numbers. Every read the two functions make is
  inside the array (the loop bounds see to it), so \<open>xs ! i\<close> is only used in range.
\<close>

type_synonym float_array = "jsnum list"

subsection \<open>computeRMS\<close>

definition computeRMS :: "float_array \<Rightarrow> jsnum" where
  "computeRMS buffer =
     (let sum = fold (\<lambda>i sum. let v = buffer ! i in js_add sum (js_mul v v))
                  [0..<length buffer] (Fin 0)
      in Math_sqrt (js_div sum (Fin (real (length buffer)))))"

subsection \<open>detectPitchYIN\<close>

text \<open>The options object: a missing key (\<^verbatim>\<open>undefined\<close>) is \<open>None\<close>.\<close>

record yin_options =
  opt_minFreq :: "jsnum option"
  opt_maxFreq :: "jsnum option"
  opt_threshold :: "jsnum option"

text \<open>\<^verbatim>\<open>x ?? d\<close>\<close>

definition nullish :: "'a option \<Rightarrow> 'a \<Rightarrow> 'a" where
  "nullish x d = (case x of None \<Rightarrow> d | Some v \<Rightarrow> v)"

text \<open>
  The only exception the function can raise on a well-typed call: the
  \<^verbatim>\<open>RangeError\<close> of \<^verbatim>\<open>new Float32Array(n)\<close> for a negative or infinite
  length.
\<close>

datatype yin_error = RangeError

text \<open>
  Lines 36 to 41, the inner loop for one lag: the sum over \<open>i < bufSize - tau\<close> of
  the squared differences.
\<close>

definition difference :: "float_array \<Rightarrow> nat \<Rightarrow> jsnum" where
  "difference buffer tau =
     fold (\<lambda>i sum. let diff = js_sub (buffer ! i) (buffer ! (i + tau))
                    in js_add sum (js_mul diff diff))
       [0..<length buffer - tau] (Fin 0)"

text \<open>
  Lines 32 to 42: the fresh array of \<open>tauMax + 1\<close> zeros, cell 0 set to 1, cell
  \<open>tau\<close> set to the difference function for \<open>tau\<close> from 1 to \<open>tauMax\<close>.
\<close>

definition difference_array :: "float_array \<Rightarrow> nat \<Rightarrow> float_array" where
  "difference_array buffer tauMax =
     fold (\<lambda>tau yin. yin[tau := difference buffer tau])
       [1..<tauMax + 1] ((replicate (tauMax + 1) (Fin 0))[0 := Fin 1])"

text \<open>Lines 45 to 50: the cumulative mean normalised difference, in place.\<close>

definition cmnd_step :: "nat \<Rightarrow> jsnum \<times> float_array \<Rightarrow> jsnum \<times> float_array" where
  "cmnd_step tau st =
     (case st of (runningSum, yin) \<Rightarrow>
        let runningSum' = js_add runningSum (yin ! tau)
        in (runningSum',
            yin[tau := js_div (js_mul (yin ! tau) (Fin (real tau)))
                              (js_or runningSum' (Fin 1))]))"

definition cmnd :: "float_array \<Rightarrow> nat \<Rightarrow> float_array" where
  "cmnd yin tauMax = (snd (fold cmnd_step [1..<tauMax + 1] (Fin 0, yin)))[0 := Fin 1]"

text \<open>Lines 57 to 59: walk right while the next value is smaller.\<close>

function walk_right :: "float_array \<Rightarrow> nat \<Rightarrow> nat \<Rightarrow> nat" where
  "walk_right yin tauMax tau =
     (if tau + 1 \<le> tauMax \<and> js_lt (yin ! (tau + 1)) (yin ! tau)
      then walk_right yin tauMax (tau + 1) else tau)"
  by pat_completeness auto
termination
  by (relation "measure (\<lambda>(yin, tauMax, tau). tauMax - tau)") auto

text \<open>
  Lines 53 to 63: the first lag from \<open>tau\<close> on whose value is under the threshold,
  walked right to its local minimum; \<open>-1\<close> when there is none.
\<close>

function threshold_search :: "float_array \<Rightarrow> jsnum \<Rightarrow> nat \<Rightarrow> nat \<Rightarrow> int" where
  "threshold_search yin threshold tauMax tau =
     (if tau \<le> tauMax
      then (if js_lt (yin ! tau) threshold then int (walk_right yin tauMax tau)
            else threshold_search yin threshold tauMax (tau + 1))
      else - 1)"
  by pat_completeness auto
termination
  by (relation "measure (\<lambda>(yin, threshold, tauMax, tau). tauMax + 1 - tau)") auto

text \<open>
  Lines 66 to 72: the fallback, the first lag of the global minimum. The state of the
  loop is \<open>(minVal, tauEstimate)\<close>, started at \<open>(Infinity, -1)\<close>.
\<close>

definition fallback_step :: "float_array \<Rightarrow> nat \<Rightarrow> jsnum \<times> int \<Rightarrow> jsnum \<times> int" where
  "fallback_step yin tau st =
     (case st of (minVal, tauEstimate) \<Rightarrow>
        if js_lt (yin ! tau) minVal then (yin ! tau, int tau) else (minVal, tauEstimate))"

definition fallback_search :: "float_array \<Rightarrow> nat \<Rightarrow> nat \<Rightarrow> int" where
  "fallback_search yin tauMin tauMax =
     snd (fold (fallback_step yin) [tauMin..<tauMax + 1] (PInf, - 1))"

text \<open>Lines 77 to 86: parabolic interpolation around the candidate lag.\<close>

definition interpolate :: "float_array \<Rightarrow> nat \<Rightarrow> int \<Rightarrow> jsnum" where
  "interpolate yin tauMax tauEstimate =
     (if tauEstimate > 1 \<and> tauEstimate < int tauMax then
        (let a = yin ! nat (tauEstimate - 1);
             b = yin ! nat tauEstimate;
             c = yin ! nat (tauEstimate + 1);
             denom = js_mul (Fin 2) (js_sub (js_sub (js_mul (Fin 2) b) a) c)
         in if nonzero denom
            then js_add (Fin (real_of_int tauEstimate)) (js_div (js_sub c a) denom)
            else Fin (real_of_int tauEstimate))
      else Fin (real_of_int tauEstimate))"

text \<open>Lines 88 to 91: the frequency, and the checks that reject it.\<close>

definition frequency_of :: "jsnum \<Rightarrow> jsnum \<Rightarrow> jsnum \<Rightarrow> jsnum \<Rightarrow> jsnum option" where
  "frequency_of sampleRate minFreq maxFreq betterTau =
     (let freq = js_div sampleRate betterTau
      in if \<not> isFinite freq \<or> js_le freq (Fin 0) then None
         else if js_lt freq minFreq \<or> js_gt freq maxFreq then None
         else Some freq)"

text \<open>
  Lines 53 to 74: the threshold search, and the fallback when it finds nothing; the
  result is \<^verbatim>\<open>tauEstimate\<close>, still \<open>-1\<close> when neither selects a lag.
\<close>

definition yin_search :: "float_array \<Rightarrow> jsnum \<Rightarrow> nat \<Rightarrow> nat \<Rightarrow> int" where
  "yin_search yin threshold tauMin tauMax =
     (let tauEstimate = threshold_search yin threshold tauMax tauMin
      in if tauEstimate = - 1 then fallback_search yin tauMin tauMax else tauEstimate)"

text \<open>
  Lines 31 to 91, for lag bounds that are natural numbers: the array of the normalised
  difference, the search, the interpolation and the frequency.
\<close>

definition yin_body ::
  "float_array \<Rightarrow> jsnum \<Rightarrow> jsnum \<Rightarrow> jsnum \<Rightarrow> jsnum \<Rightarrow> nat \<Rightarrow> nat \<Rightarrow> jsnum option" where
  "yin_body buffer sampleRate minFreq maxFreq threshold tauMin tauMax =
     (let yin = cmnd (difference_array buffer tauMax) tauMax;
          tauEstimate = yin_search yin threshold tauMin tauMax
      in if tauEstimate = - 1 then None
         else frequency_of sampleRate minFreq maxFreq (interpolate yin tauMax tauEstimate))"

text \<open>Lines 27 and 28: the bounds of the lag search.\<close>

definition lag_min :: "jsnum \<Rightarrow> jsnum \<Rightarrow> jsnum" where
  "lag_min sampleRate maxFreq = Math_max (Fin 2) (Math_floor (js_div sampleRate maxFreq))"

definition lag_max :: "nat \<Rightarrow> jsnum \<Rightarrow> jsnum \<Rightarrow> jsnum" where
  "lag_max bufSize sampleRate minFreq =
     Math_min (Fin (real bufSize - 3)) (Math_floor (js_div sampleRate minFreq))"

text \<open>
  The whole function. After the two guards the lag bounds are numbers that need not be
  finite: \<open>tauMax\<close> is the minimum of \<open>bufSize - 3\<close> and a floor, so it is an
  integer, \<open>-Infinity\<close> or NaN; \<open>tauMin\<close> is an integer from 2 on, \<open>Infinity\<close>
  or NaN. The guard \<^verbatim>\<open>tauMin >= tauMax\<close> is false when either is NaN. Then:
  \<^item> \<open>tauMax\<close> NaN: the array has length 0 (\<^verbatim>\<open>new Float32Array(NaN)\<close>), no loop
    runs (every \<^verbatim>\<open>tau <= tauMax\<close> is false) and the result is \<^verbatim>\<open>null\<close>;
  \<^item> \<open>tauMax + 1\<close> negative or infinite: the allocation raises;
  \<^item> \<open>tauMin\<close> NaN: the two search loops do not run and the result is \<^verbatim>\<open>null\<close>.
\<close>

definition detectPitchYIN ::
  "float_array \<Rightarrow> jsnum \<Rightarrow> yin_options \<Rightarrow> yin_error + jsnum option" where
  "detectPitchYIN buffer sampleRate options =
     (let minFreq = nullish (opt_minFreq options) (Fin 50);
          maxFreq = nullish (opt_maxFreq options) (Fin 2000);
          threshold = nullish (opt_threshold options) (Fin (1 / 10));
          bufSize = length buffer
      in if bufSize < 512 then Inr None
         else
           let tauMin = lag_min sampleRate maxFreq;
               tauMax = lag_max bufSize sampleRate minFreq
           in if js_ge tauMin tauMax then Inr None
              else (case tauMax of
                      NaN \<Rightarrow> Inr None
                    | PInf \<Rightarrow> Inl RangeError
                    | NInf \<Rightarrow> Inl RangeError
                    | Fin t \<Rightarrow>
                        if t + 1 < 0 then Inl RangeError
                        else (case tauMin of
                                Fin m \<Rightarrow>
                                  Inr (yin_body buffer sampleRate minFreq maxFreq threshold
                                         (nat \<lfloor>m\<rfloor>) (nat \<lfloor>t\<rfloor>))
                              | _ \<Rightarrow> Inr None)))"

text \<open>
  The refinement of a lag in the spec's words (section 4.2, step 7): with the neighbours
  \<open>a = cmnd(tau - 1)\<close>, \<open>b = cmnd(tau)\<close>, \<open>c = cmnd(tau + 1)\<close> and
  \<open>denom = 2(2b - a - c)\<close>, the refined lag is \<open>tau + (c - a) / denom\<close> if
  \<open>denom\<close> is not 0, and \<open>tau\<close> otherwise.
\<close>

definition spec_refined_lag :: "float_array \<Rightarrow> nat \<Rightarrow> jsnum" where
  "spec_refined_lag yin tau =
     (let a = yin ! (tau - 1); b = yin ! tau; c = yin ! (tau + 1);
          denom = js_mul (Fin 2) (js_sub (js_sub (js_mul (Fin 2) b) a) c)
      in if nonzero denom then js_add (Fin (real tau)) (js_div (js_sub c a) denom)
         else Fin (real tau))"

text \<open>An example block: 512 samples, all zero but a single 1 at index 2.\<close>

definition impulse_block :: float_array where
  "impulse_block = Fin 0 # Fin 0 # Fin 1 # replicate 509 (Fin 0)"

section \<open>The MicPitch class\<close>

subsection \<open>Options\<close>

text \<open>
  The constructor's argument, where every key may be left out (\<open>None\<close>), and the
  stored \<^verbatim>\<open>this.options\<close>, the argument spread over the defaults.
\<close>

record supplied_options =
  s_minFreq :: "jsnum option"
  s_maxFreq :: "jsnum option"
  s_threshold :: "jsnum option"
  s_fftSize :: "jsnum option"
  s_updateIntervalMs :: "jsnum option"
  s_smoothing :: "jsnum option"
  s_averageSeconds :: "jsnum option"
  s_minRms :: "jsnum option"
  s_deviceId :: "string option"

record mic_options =
  o_minFreq :: jsnum
  o_maxFreq :: jsnum
  o_threshold :: jsnum
  o_fftSize :: jsnum
  o_updateIntervalMs :: jsnum
  o_smoothing :: jsnum
  o_averageSeconds :: jsnum
  o_minRms :: jsnum
  o_deviceId :: "string option"

definition merge_options :: "supplied_options \<Rightarrow> mic_options" where
  "merge_options given =
     \<lparr>o_minFreq = nullish (s_minFreq given) (Fin 50),
      o_maxFreq = nullish (s_maxFreq given) (Fin 2000),
      o_threshold = nullish (s_threshold given) (Fin (1 / 10)),
      o_fftSize = nullish (s_fftSize given) (Fin 2048),
      o_updateIntervalMs = nullish (s_updateIntervalMs given) (Fin 50),
      o_smoothing = nullish (s_smoothing given) (Fin (1 / 4)),
      o_averageSeconds = nullish (s_averageSeconds given) (Fin 1),
      o_minRms = nullish (s_minRms given) (Fin (1 / 100)),
      o_deviceId = s_deviceId given\<rparr>"

subsection \<open>The instance\<close>

text \<open>
  A listener is code of the caller's: called with the frequency, it changes the world
  outside the pipeline (of some type \<open>'w\<close>) and returns or throws. The set of
  listeners is the list of its members in insertion order, the order a \<^verbatim>\<open>Set\<close>
  is iterated in. Objects of the platform (the audio context, the stream, the source
  node, the analyser, the timer) are handles; a field that is \<^verbatim>\<open>null\<close> is
  \<open>None\<close>. A history entry is the pair of its time stamp \<^verbatim>\<open>t\<close>, a reading of
  \<^verbatim>\<open>performance.now()\<close> and so a finite number, and its frequency \<^verbatim>\<open>f\<close>.
\<close>

datatype 'w outcome = Returned 'w | Threw 'w

type_synonym 'w listener = "jsnum option \<Rightarrow> 'w \<Rightarrow> 'w outcome"

type_synonym handle = nat

record 'w mic_pitch =
  mp_options :: mic_options
  mp_ctx :: "handle option"
  mp_stream :: "handle option"
  mp_source :: "handle option"
  mp_analyser :: "handle option"
  mp_buffer :: "float_array option"
  mp_timer :: "handle option"
  mp_listeners :: "'w listener list"
  mp_emaFreq :: "jsnum option"
  mp_history :: "(real \<times> jsnum option) list"
  mp_running :: bool
  mp_deviceId :: "string option"

text \<open>
  What a call can raise: \<^verbatim>\<open>start\<close> its own error when there is no Web Audio API,
  the analyser's refusal of an \<^verbatim>\<open>fftSize\<close>, the rejection of
  \<^verbatim>\<open>getUserMedia\<close>; a tick the \<^verbatim>\<open>TypeError\<close> of reading
  \<^verbatim>\<open>sampleRate\<close> of a context that is \<^verbatim>\<open>null\<close>, and what
  \<^verbatim>\<open>detectPitchYIN\<close> raises.
\<close>

datatype mic_error = NoWebAudio | AnalyserError | StreamError | TypeError | Yin yin_error


subsection \<open>start and stop\<close>

text \<open>
  The answers of the platform to one call of \<^verbatim>\<open>start\<close>: the audio context
  (\<open>None\<close> when the page has no Web Audio API), the analyser node, what its
  \<^verbatim>\<open>fftSize\<close> is after the assignment (\<open>None\<close> when the setter throws), the
  stream \<^verbatim>\<open>getUserMedia\<close> resolves with for a device id (\<open>None\<close> when it
  rejects), the source node and the timer. Each call is run to its end (awaited) before
  the next one starts.
\<close>

record platform =
  pf_AudioContext :: "handle option"
  pf_createAnalyser :: handle
  pf_set_fftSize :: "jsnum \<Rightarrow> nat option"
  pf_getUserMedia :: "string option \<Rightarrow> handle option"
  pf_createMediaStreamSource :: handle
  pf_setInterval :: handle

text \<open>Lines 142 to 158 (disconnecting and stopping the old stream touch no field).\<close>

definition replaceStream :: "platform \<Rightarrow> 'w mic_pitch \<Rightarrow> 'w mic_pitch \<times> mic_error option" where
  "replaceStream pf s =
     (case pf_getUserMedia pf (mp_deviceId s) of
        None \<Rightarrow> (s, Some StreamError)
      | Some newStream \<Rightarrow>
          let s1 = s\<lparr>mp_stream := Some newStream\<rparr>
          in (if mp_ctx s1 \<noteq> None \<and> mp_analyser s1 \<noteq> None
              then s1\<lparr>mp_source := Some (pf_createMediaStreamSource pf)\<rparr>
              else s1, None))"

text \<open>Line 230: the loop installs the timer that runs the ticks.\<close>

definition loop :: "platform \<Rightarrow> 'w mic_pitch \<Rightarrow> 'w mic_pitch" where
  "loop pf s = s\<lparr>mp_timer := Some (pf_setInterval pf)\<rparr>"

text \<open>Lines 60 to 76: the instance after the call, and the error it raised, if any.\<close>

definition start :: "platform \<Rightarrow> 'w mic_pitch \<Rightarrow> 'w mic_pitch \<times> mic_error option" where
  "start pf s =
     (if mp_running s then (s, None)
      else (case pf_AudioContext pf of
              None \<Rightarrow> (s, Some NoWebAudio)
            | Some ctx \<Rightarrow>
                let s1 = s\<lparr>mp_ctx := Some ctx, mp_analyser := Some (pf_createAnalyser pf)\<rparr>
                in (case pf_set_fftSize pf (o_fftSize (mp_options s1)) of
                      None \<Rightarrow> (s1, Some AnalyserError)
                    | Some n \<Rightarrow>
                        let s2 = s1\<lparr>mp_buffer := Some (replicate n (Fin 0))\<rparr>
                        in (case replaceStream pf s2 of
                              (s3, Some e) \<Rightarrow> (s3, Some e)
                            | (s3, None) \<Rightarrow> (loop pf (s3\<lparr>mp_running := True\<rparr>), None)))))"

text \<open>Lines 78 to 103.\<close>

definition stop :: "'w mic_pitch \<Rightarrow> 'w mic_pitch" where
  "stop s =
     (if \<not> mp_running s then s
      else s\<lparr>mp_timer := None,
             mp_analyser := None,
             mp_stream := None,
             mp_ctx := None,
             mp_buffer := None,
             mp_emaFreq := None,
             mp_history := [],
             mp_running := False\<rparr>)"

subsection \<open>getAverageFrequency\<close>

text \<open>
  Lines 170 to 177: the scan from the newest entry backwards, over the reversed history;
  the state is \<open>(sm, count)\<close>, the source's \<^verbatim>\<open>sum\<close> and \<^verbatim>\<open>count\<close>.
\<close>

fun average_scan ::
  "jsnum \<Rightarrow> (real \<times> jsnum option) list \<Rightarrow> jsnum \<times> nat \<Rightarrow> jsnum \<times> nat" where
  "average_scan cutoff [] (sm, count) = (sm, count)"
| "average_scan cutoff ((t, f) # items) (sm, count) =
     (if js_lt (Fin t) cutoff then (sm, count)
      else average_scan cutoff items
             (case f of
                None \<Rightarrow> (sm, count)
              | Some v \<Rightarrow> if isFinite v then (js_add sm v, count + 1) else (sm, count)))"

text \<open>
  Lines 165 to 179, at the clock reading \<open>now\<close>; \<open>seconds\<close> is \<open>None\<close> when the
  caller leaves the argument out.
\<close>

definition getAverageFrequency :: "real \<Rightarrow> jsnum option \<Rightarrow> 'w mic_pitch \<Rightarrow> jsnum option" where
  "getAverageFrequency now seconds s =
     (let seconds = nullish seconds (o_averageSeconds (mp_options s));
          cutoff = js_sub (Fin now) (js_mul seconds (Fin 1000))
      in (case average_scan cutoff (rev (mp_history s)) (Fin 0, 0) of
            (sm, count) \<Rightarrow>
              if count \<noteq> 0 then Some (js_div sm (Fin (real count))) else None))"

subsection \<open>The tick\<close>

text \<open>Lines 181 to 185: every listener is called inside its own try and catch.\<close>

fun emit :: "jsnum option \<Rightarrow> 'w listener list \<Rightarrow> 'w \<Rightarrow> 'w" where
  "emit freq [] w = w"
| "emit freq (cb # cbs) w =
     (case cb freq w of
        Returned w' \<Rightarrow> emit freq cbs w'
      | Threw w' \<Rightarrow> emit freq cbs w')"

text \<open>
  Line 193: the analyser copies its samples into the array, as many as fit; cells
  beyond the samples keep their values.
\<close>

definition getFloatTimeDomainData :: "float_array \<Rightarrow> float_array \<Rightarrow> float_array" where
  "getFloatTimeDomainData samples array = take (length array) samples @ drop (length samples) array"

text \<open>Lines 196 to 201: the estimate, attempted only when the block's energy reaches \<^verbatim>\<open>minRms\<close>.\<close>

definition estimate :: "mic_options \<Rightarrow> float_array \<Rightarrow> jsnum \<Rightarrow> yin_error + jsnum option" where
  "estimate options buffer sr =
     (let rms = computeRMS buffer
      in if js_ge rms (o_minRms options)
         then detectPitchYIN buffer sr
                \<lparr>opt_minFreq = Some (o_minFreq options),
                 opt_maxFreq = Some (o_maxFreq options),
                 opt_threshold = Some (o_threshold options)\<rparr>
         else Inr None)"

text \<open>Lines 204 to 216: exponential smoothing; the result is the new \<^verbatim>\<open>_emaFreq\<close>.\<close>

definition smooth :: "jsnum \<Rightarrow> jsnum option \<Rightarrow> jsnum option \<Rightarrow> jsnum option" where
  "smooth smoothing emaFreq freq =
     (case freq of
        Some f \<Rightarrow>
          (case emaFreq of
             None \<Rightarrow> Some f
           | Some e \<Rightarrow>
               if js_gt smoothing (Fin 0) then
                 (let alpha = Math_min (Math_max smoothing (Fin 0)) (Fin 1)
                  in Some (js_add (js_mul alpha f) (js_mul (js_sub (Fin 1) alpha) e)))
               else Some f)
      | None \<Rightarrow> None)"

text \<open>Lines 223 to 225: entries older than the cutoff are shifted out of the front.\<close>

fun trim :: "jsnum \<Rightarrow> (real \<times> jsnum option) list \<Rightarrow> (real \<times> jsnum option) list" where
  "trim cutoff [] = []"
| "trim cutoff (item # items) =
     (if js_lt (Fin (fst item)) cutoff then trim cutoff items else item # items)"

definition trim_cutoff :: "mic_options \<Rightarrow> real \<Rightarrow> jsnum" where
  "trim_cutoff options now =
     js_sub (js_sub (Fin now) (js_mul (Math_max (Fin 1) (o_averageSeconds options)) (Fin 1000)))
            (Fin 200)"

text \<open>
  Lines 190 to 228, one tick: \<open>samples\<close> is what the analyser holds, \<open>sr\<close> the
  sample rate of the context and \<open>now\<close> the clock reading; \<open>w\<close> is the world of
  the listeners. The result is the instance and the world after the tick, and what the
  tick raised, if anything. An exception leaves the fields after the buffer as they were.
\<close>

definition tick ::
  "float_array \<Rightarrow> jsnum \<Rightarrow> real \<Rightarrow> 'w mic_pitch \<Rightarrow> 'w \<Rightarrow> 'w mic_pitch \<times> 'w \<times> mic_error option" where
  "tick samples sr now s w =
     (case (mp_analyser s, mp_buffer s) of
        (Some analyser, Some array) \<Rightarrow>
          let buffer = getFloatTimeDomainData samples array;
              s1 = s\<lparr>mp_buffer := Some buffer\<rparr>
          in (case mp_ctx s of
                None \<Rightarrow> (s1, w, Some TypeError)
              | Some ctx \<Rightarrow>
                  (case estimate (mp_options s) buffer sr of
                     Inl e \<Rightarrow> (s1, w, Some (Yin e))
                   | Inr freq \<Rightarrow>
                       let emaFreq = smooth (o_smoothing (mp_options s)) (mp_emaFreq s) freq;
                           history = mp_history s @ [(now, emaFreq)];
                           cutoff = trim_cutoff (mp_options s) now;
                           s2 = s1\<lparr>mp_emaFreq := emaFreq, mp_history := trim cutoff history\<rparr>
                       in (s2, emit emaFreq (mp_listeners s) w, None)))
      | _ \<Rightarrow> (s, w, None))"

text \<open>
  The world a listener leaves behind, and the listener that does to the world what
  \<open>cb\<close> does and never throws.
\<close>

fun world_after :: "'w outcome \<Rightarrow> 'w" where
  "world_after (Returned w) = w"
| "world_after (Threw w) = w"

definition quiet :: "'w listener \<Rightarrow> 'w listener" where
  "quiet cb = (\<lambda>freq w. Returned (world_after (cb freq w)))"

text \<open>
  The windowed average in the spec's words (section 4.4): the mean of all present
  values (not \<^verbatim>\<open>null\<close>, finite) whose time stamp is at least the cutoff, absent
  when there is none.
\<close>

fun present_value :: "jsnum option \<Rightarrow> real option" where
  "present_value (Some (Fin v)) = Some v"
| "present_value _ = None"

definition qualifying :: "jsnum \<Rightarrow> (real \<times> jsnum option) list \<Rightarrow> real list" where
  "qualifying cutoff history =
     List.map_filter (\<lambda>item. present_value (snd item))
       (filter (\<lambda>item. js_ge (Fin (fst item)) cutoff) history)"

definition mean :: "real list \<Rightarrow> jsnum option" where
  "mean vals = (if vals = [] then None else Some (Fin (sum_list vals / real (length vals))))"


section \<open>Properties of detectPitchYIN\<close>

subsection \<open>Evaluating the difference function\<close>

lemma js_add_zero: "js_add x (Fin 0) = x"
  by (cases x) auto

lemma fold_unchanged: "(\<And>i x. i \<in> set ixs \<Longrightarrow> g i x = x) \<Longrightarrow> fold g ixs x = x"
  by (induction ixs arbitrary: x) auto

text \<open>
  From an index on where every sample equals the one \<open>tau\<close> places later, the inner
  loop adds nothing: the difference function is the sum over the indices before it.
\<close>

lemma difference_tail:
  assumes "i0 \<le> length buffer - tau"
    and "\<And>i. i0 \<le> i \<Longrightarrow> i + tau < length buffer \<Longrightarrow>
           js_sub (buffer ! i) (buffer ! (i + tau)) = Fin 0"
  shows "difference buffer tau =
     fold (\<lambda>i sum. let diff = js_sub (buffer ! i) (buffer ! (i + tau))
                    in js_add sum (js_mul diff diff)) [0..<i0] (Fin 0)"
proof -
  let ?g = "\<lambda>i sum. let diff = js_sub (buffer ! i) (buffer ! (i + tau))
                      in js_add sum (js_mul diff diff)"
  have split: "[0..<length buffer - tau] = [0..<i0] @ [i0..<length buffer - tau]"
    using assms(1) by (metis le0 upt_add_eq_append le_add_diff_inverse)
  have "fold ?g [i0..<length buffer - tau] x = x" for x
  proof (rule fold_unchanged)
    fix i x assume "i \<in> set [i0..<length buffer - tau]"
    then have "i0 \<le> i" "i + tau < length buffer" by auto
    then show "?g i x = x" by (simp add: assms(2) js_add_zero)
  qed
  then show ?thesis
    unfolding difference_def by (subst split) simp
qed

lemma difference_silence: "difference (replicate n (Fin 0)) tau = Fin 0"
  by (subst difference_tail [where ?i0.0 = 0]) (simp_all add: js_sub_def)

text \<open>The energy of a block of zeros is 0.\<close>

lemma computeRMS_silence:
  assumes "0 < n"
  shows "computeRMS (replicate n (Fin 0)) = Fin 0"
proof -
  have "fold (\<lambda>i sum. let v = replicate n (Fin 0) ! i in js_add sum (js_mul v v))
          [0..<length (replicate n (Fin 0))] (Fin 0) = Fin 0"
    by (rule fold_unchanged) (simp add: js_add_zero)
  then show ?thesis
    using assms by (simp add: computeRMS_def)
qed

subsection \<open>A run on silence\<close>

text \<open>
  A block of 512 zeros at a sample rate of 1000 Hz, searched between 100 Hz and 500 Hz:
  the lags run from 2 to 10, every value of the normalised difference is 0 (the running
  sum is 0 and is replaced by 1), the first lag is under the threshold, the parabola
  through three zeros has denominator 0, and the result is 1000 / 2.
\<close>

lemma zeros11:
  "replicate 11 (Fin 0) =
     [Fin 0, Fin 0, Fin 0, Fin 0, Fin 0, Fin 0, Fin 0, Fin 0, Fin 0, Fin 0, Fin 0]"
  by (simp add: numeral_eq_Suc)

lemma silence_difference_array:
  "difference_array (replicate 512 (Fin 0)) 10 =
     [Fin 1, Fin 0, Fin 0, Fin 0, Fin 0, Fin 0, Fin 0, Fin 0, Fin 0, Fin 0, Fin 0]"
  by (simp add: difference_array_def difference_silence upt_rec zeros11)

lemma silence_cmnd:
  "cmnd [Fin 1, Fin 0, Fin 0, Fin 0, Fin 0, Fin 0, Fin 0, Fin 0, Fin 0, Fin 0, Fin 0] 10 =
     [Fin 1, Fin 0, Fin 0, Fin 0, Fin 0, Fin 0, Fin 0, Fin 0, Fin 0, Fin 0, Fin 0]"
  by (simp add: cmnd_def cmnd_step_def upt_rec js_or_def Let_def)

lemma silence_search:
  "yin_search [Fin 1, Fin 0, Fin 0, Fin 0, Fin 0, Fin 0, Fin 0, Fin 0, Fin 0, Fin 0, Fin 0]
     (Fin (1 / 10)) 2 10 = 2"
  by (simp add: yin_search_def)

lemma silence_interpolate:
  "interpolate [Fin 1, Fin 0, Fin 0, Fin 0, Fin 0, Fin 0, Fin 0, Fin 0, Fin 0, Fin 0, Fin 0]
     10 2 = Fin 2"
  by (simp add: interpolate_def js_sub_def)

lemma silence_body:
  "yin_body (replicate 512 (Fin 0)) (Fin 1000) (Fin 100) (Fin 500) (Fin (1 / 10)) 2 10 =
     Some (Fin 500)"
  by (simp add: yin_body_def silence_difference_array silence_cmnd silence_search
        silence_interpolate frequency_of_def js_gt_def)

lemma silence_detect:
  "detectPitchYIN (replicate 512 (Fin 0)) (Fin 1000)
     \<lparr>opt_minFreq = Some (Fin 100), opt_maxFreq = Some (Fin 500), opt_threshold = t\<rparr> =
   Inr (yin_body (replicate 512 (Fin 0)) (Fin 1000) (Fin 100) (Fin 500)
          (nullish t (Fin (1 / 10))) 2 10)"
  by (simp add: detectPitchYIN_def nullish_def lag_min_def lag_max_def js_ge_def)

subsection \<open>The guards\<close>

text \<open>
  C7. A block of fewer than 512 samples gives \<^verbatim>\<open>null\<close>, and so does every block,
  sample rate and options for which \<^verbatim>\<open>tauMin >= tauMax\<close>; in both cases the call
  returns (the result is \<open>Inr\<close>: nothing is raised).
\<close>

theorem detectPitchYIN_insufficient_data:
  "(length buffer < 512 \<longrightarrow> detectPitchYIN buffer sampleRate options = Inr None) \<and>
   (js_ge (lag_min sampleRate (nullish (opt_maxFreq options) (Fin 2000)))
          (lag_max (length buffer) sampleRate (nullish (opt_minFreq options) (Fin 50)))
      \<longrightarrow> detectPitchYIN buffer sampleRate options = Inr None)"
  by (simp add: detectPitchYIN_def Let_def)

text \<open>
  At 511 samples, and at 512 samples with a sample rate of 100 Hz and the default
  bounds, where both lag bounds are 2.
\<close>

theorem detectPitchYIN_insufficient_data_witness:
  "length (replicate 511 (Fin 1)) < 512 \<and>
   detectPitchYIN (replicate 511 (Fin 1)) (Fin 44100)
     \<lparr>opt_minFreq = None, opt_maxFreq = None, opt_threshold = None\<rparr> = Inr None \<and>
   \<not> length (replicate 512 (Fin 0)) < 512 \<and>
   lag_min (Fin 100) (Fin 2000) = Fin 2 \<and>
   lag_max (length (replicate 512 (Fin 0))) (Fin 100) (Fin 50) = Fin 2 \<and>
   js_ge (Fin 2) (Fin 2) \<and>
   detectPitchYIN (replicate 512 (Fin 0)) (Fin 100)
     \<lparr>opt_minFreq = None, opt_maxFreq = None, opt_threshold = None\<rparr> = Inr None"
  using detectPitchYIN_insufficient_data
          [of "replicate 511 (Fin 1)" "Fin 44100"
              "\<lparr>opt_minFreq = None, opt_maxFreq = None, opt_threshold = None\<rparr>"]
        detectPitchYIN_insufficient_data
          [of "replicate 512 (Fin 0)" "Fin 100"
              "\<lparr>opt_minFreq = None, opt_maxFreq = None, opt_threshold = None\<rparr>"]
  by (simp add: lag_min_def lag_max_def nullish_def js_ge_def)

subsection \<open>The fallback search\<close>

lemma fallback_keeps: "snd st \<noteq> - 1 \<Longrightarrow> snd (fold (fallback_step yin) taus st) \<noteq> - 1"
  by (induction taus arbitrary: st) (auto simp: fallback_step_def split: prod.splits)

lemma fallback_search_found:
  assumes "tauMin \<le> tauMax" and "js_lt (yin ! tauMin) PInf"
  shows "fallback_search yin tauMin tauMax \<noteq> - 1"
proof -
  have "[tauMin..<tauMax + 1] = tauMin # [tauMin + 1..<tauMax + 1]"
    using assms(1) by (simp add: upt_conv_Cons)
  then show ?thesis
    using assms(2) by (simp add: fallback_search_def fallback_step_def fallback_keeps)
qed

lemma js_lt_PInf: "isFinite x \<Longrightarrow> js_lt x PInf"
  by (cases x) auto

text \<open>
  C10. With \<open>tauMin < tauMax\<close> and every value of the normalised difference between
  the two lags finite, the fallback loop leaves a lag in \<^verbatim>\<open>tauEstimate\<close>: the first
  value it meets is below \<^verbatim>\<open>Infinity\<close>. So the search as a whole (threshold search,
  then fallback) does not end with \<open>-1\<close>, and the \<^verbatim>\<open>return null\<close> of line 73 is
  not reached. (The length of the block plays no part.)
\<close>

theorem fallback_always_selects:
  assumes "tauMin < tauMax"
    and "\<forall>tau. tauMin \<le> tau \<and> tau \<le> tauMax \<longrightarrow> isFinite (yin ! tau)"
  shows "fallback_search yin tauMin tauMax \<noteq> - 1 \<and>
         yin_search yin threshold tauMin tauMax \<noteq> - 1"
proof -
  have "js_lt (yin ! tauMin) PInf"
    using assms by (simp add: js_lt_PInf)
  then have "fallback_search yin tauMin tauMax \<noteq> - 1"
    using assms(1) by (simp add: fallback_search_found)
  then show ?thesis
    by (simp add: yin_search_def Let_def)
qed

theorem fallback_always_selects_witness:
  "(2::nat) < 4 \<and> fallback_search [Fin 1, Fin 1, Fin 3, Fin 2, Fin 5] 2 4 = 3 \<and>
   yin_search [Fin 1, Fin 1, Fin 3, Fin 2, Fin 5] (Fin (1 / 10)) 2 4 = 3"
proof -
  have fin: "\<forall>tau. (2::nat) \<le> tau \<and> tau \<le> 4 \<longrightarrow>
               isFinite ([Fin 1, Fin 1, Fin 3, Fin 2, Fin 5] ! tau)"
  proof (intro allI impI)
    fix tau :: nat assume "2 \<le> tau \<and> tau \<le> 4"
    then have "tau = 2 \<or> tau = 3 \<or> tau = 4" by arith
    then show "isFinite ([Fin 1, Fin 1, Fin 3, Fin 2, Fin 5] ! tau)" by auto
  qed
  have fb: "fallback_search [Fin 1, Fin 1, Fin 3, Fin 2, Fin 5] 2 4 = 3"
    by (simp add: fallback_search_def fallback_step_def upt_rec)
  have "fallback_search [Fin 1, Fin 1, Fin 3, Fin 2, Fin 5] 2 4 \<noteq> - 1"
    using fallback_always_selects [of 2 4 "[Fin 1, Fin 1, Fin 3, Fin 2, Fin 5]"] fin by simp
  then show ?thesis
    using fb by (simp add: yin_search_def)
qed

text \<open>
  Without the assumption the loop can select nothing: no NaN is below
  \<^verbatim>\<open>Infinity\<close>.
\<close>

lemma fallback_all_NaN: "fallback_search [Fin 1, NaN, NaN, NaN, NaN] 2 4 = - 1"
  by (simp add: fallback_search_def fallback_step_def upt_rec)

subsection \<open>The range of the result\<close>

lemma frequency_of_range:
  assumes "js_lt (Fin 0) minFreq" "js_lt minFreq maxFreq"
    and "frequency_of sampleRate minFreq maxFreq betterTau = Some f"
  shows "isFinite f \<and> js_lt (Fin 0) f \<and> js_le minFreq f \<and> js_le f maxFreq"
  using assms
  by (cases f; cases minFreq; cases maxFreq)
     (auto simp: frequency_of_def Let_def js_gt_def split: if_splits)

lemma yin_body_range:
  assumes "js_lt (Fin 0) minFreq" "js_lt minFreq maxFreq"
    and "yin_body buffer sampleRate minFreq maxFreq threshold tauMin tauMax = Some f"
  shows "isFinite f \<and> js_lt (Fin 0) f \<and> js_le minFreq f \<and> js_le f maxFreq"
  using assms frequency_of_range [OF assms(1,2)]
  by (auto simp: yin_body_def Let_def split: if_splits)

lemma lag_min_NaN:
  assumes "js_lt (Fin 0) maxFreq" "lag_min sampleRate maxFreq = NaN"
  shows "sampleRate = NaN \<or> (maxFreq = PInf \<and> (sampleRate = PInf \<or> sampleRate = NInf))"
  using assms by (cases sampleRate; cases maxFreq) (auto simp: lag_min_def split: if_splits)

lemma lag_min_Fin: "lag_min sampleRate maxFreq = Fin m \<Longrightarrow> 2 \<le> m"
  by (cases "Math_floor (js_div sampleRate maxFreq)") (auto simp: lag_min_def split: if_splits)

lemma lag_min_not_NInf: "lag_min sampleRate maxFreq \<noteq> NInf"
  by (cases "Math_floor (js_div sampleRate maxFreq)") (auto simp: lag_min_def)

lemma lag_max_not_PInf: "lag_max bufSize sampleRate minFreq \<noteq> PInf"
  by (cases "Math_floor (js_div sampleRate minFreq)") (auto simp: lag_max_def)

lemma lag_max_NaN: "lag_max bufSize NaN minFreq = NaN"
  by (simp add: lag_max_def)

lemma lag_max_PInf_rate:
  "js_lt (Fin 0) minFreq \<Longrightarrow> js_lt minFreq maxFreq \<Longrightarrow>
   lag_max bufSize PInf minFreq = Fin (real bufSize - 3)"
  by (cases minFreq; cases maxFreq) (auto simp: lag_max_def)

text \<open>
  C2. With \<open>0 < minFreq < maxFreq\<close> (the options' values, or the defaults 50 and 2000
  for the keys left out), a call of \<^verbatim>\<open>detectPitchYIN\<close> on any block and sample
  rate returns \<^verbatim>\<open>null\<close>, or a number that is finite, positive and between
  \<open>minFreq\<close> and \<open>maxFreq\<close>. The call raises only for a sample rate of
  \<^verbatim>\<open>-Infinity\<close> with \<open>maxFreq\<close> \<^verbatim>\<open>Infinity\<close> (the lower lag bound is NaN
  then, the guard passes and the array's length is \<^verbatim>\<open>-Infinity\<close>), which no sample
  rate of an audio context is.
\<close>

theorem detectPitchYIN_range:
  assumes minFreq: "minFreq = nullish (opt_minFreq options) (Fin 50)"
    and maxFreq: "maxFreq = nullish (opt_maxFreq options) (Fin 2000)"
    and pos: "js_lt (Fin 0) minFreq" and lt: "js_lt minFreq maxFreq"
  shows "case detectPitchYIN buffer sampleRate options of
           Inr None \<Rightarrow> True
         | Inr (Some f) \<Rightarrow> isFinite f \<and> js_lt (Fin 0) f \<and> js_le minFreq f \<and> js_le f maxFreq
         | Inl e \<Rightarrow> sampleRate = NInf \<and> maxFreq = PInf"
proof -
  define tauMin where "tauMin = lag_min sampleRate maxFreq"
  define tauMax where "tauMax = lag_max (length buffer) sampleRate minFreq"
  define threshold where "threshold = nullish (opt_threshold options) (Fin (1 / 10))"
  have unfold: "detectPitchYIN buffer sampleRate options =
     (if length buffer < 512 then Inr None
      else if js_ge tauMin tauMax then Inr None
      else (case tauMax of
              NaN \<Rightarrow> Inr None
            | PInf \<Rightarrow> Inl RangeError
            | NInf \<Rightarrow> Inl RangeError
            | Fin t \<Rightarrow>
                if t + 1 < 0 then Inl RangeError
                else (case tauMin of
                        Fin m \<Rightarrow>
                          Inr (yin_body buffer sampleRate minFreq maxFreq threshold
                                 (nat \<lfloor>m\<rfloor>) (nat \<lfloor>t\<rfloor>))
                      | _ \<Rightarrow> Inr None)))"
    unfolding detectPitchYIN_def Let_def tauMin_def tauMax_def threshold_def minFreq maxFreq
    by simp
  have pos_max: "js_lt (Fin 0) maxFreq"
    using pos lt by (cases minFreq; cases maxFreq) auto
  show ?thesis
  proof (cases "length buffer < 512 \<or> js_ge tauMin tauMax")
    case True
    then show ?thesis by (auto simp: unfold)
  next
    case False
    then have long: "\<not> length buffer < 512" and guard: "\<not> js_ge tauMin tauMax" by auto
    show ?thesis
    proof (cases tauMin)
      case (Fin m)
      then have m: "2 \<le> m" using lag_min_Fin tauMin_def by metis
      show ?thesis
      proof (cases tauMax)
        case (Fin t)
        with guard \<open>tauMin = Fin m\<close> have "m < t" by (simp add: js_ge_def)
        with m have "\<not> t + 1 < 0" by simp
        then show ?thesis
          using long guard Fin \<open>tauMin = Fin m\<close> yin_body_range [OF pos lt]
          by (auto simp: unfold split: option.splits)
      next
        case PInf
        then show ?thesis using lag_max_not_PInf tauMax_def by metis
      next
        case NInf
        with guard \<open>tauMin = Fin m\<close> show ?thesis by (simp add: js_ge_def)
      next
        case NaN
        then show ?thesis using long guard by (simp add: unfold)
      qed
    next
      case PInf
      with guard have "tauMax = NaN" by (cases tauMax) (auto simp: js_ge_def)
      then show ?thesis using long guard by (simp add: unfold)
    next
      case NInf
      then show ?thesis using lag_min_not_NInf tauMin_def by metis
    next
      case NaN
      then consider "sampleRate = NaN" | "maxFreq = PInf" "sampleRate = PInf"
        | "maxFreq = PInf" "sampleRate = NInf"
        using lag_min_NaN [OF pos_max] tauMin_def by metis
      then show ?thesis
      proof cases
        case 1
        then have "tauMax = NaN" by (simp add: tauMax_def lag_max_NaN)
        then show ?thesis using long guard by (simp add: unfold)
      next
        case 2
        then have "tauMax = Fin (real (length buffer) - 3)"
          using lag_max_PInf_rate [OF pos lt] by (simp add: tauMax_def)
        then show ?thesis using long guard NaN by (simp add: unfold)
      next
        case 3
        have "detectPitchYIN buffer sampleRate options = Inr None \<or>
              detectPitchYIN buffer sampleRate options = Inl RangeError"
          using long guard NaN by (cases tauMax) (simp_all add: unfold)
        with 3 show ?thesis by auto
      qed
    qed
  qed
qed

text \<open>On the block of zeros the result is present: 500 Hz, the upper bound itself.\<close>

theorem detectPitchYIN_range_witness:
  "js_lt (Fin 0) (Fin 100) \<and> js_lt (Fin 100) (Fin 500) \<and>
   detectPitchYIN (replicate 512 (Fin 0)) (Fin 1000)
     \<lparr>opt_minFreq = Some (Fin 100), opt_maxFreq = Some (Fin 500), opt_threshold = None\<rparr>
     = Inr (Some (Fin 500)) \<and>
   isFinite (Fin 500) \<and> js_lt (Fin 0) (Fin 500) \<and> js_le (Fin 100) (Fin 500) \<and>
   js_le (Fin 500) (Fin 500)"
  using detectPitchYIN_range
          [where minFreq = "Fin 100" and maxFreq = "Fin 500"
             and options = "\<lparr>opt_minFreq = Some (Fin 100), opt_maxFreq = Some (Fin 500),
                              opt_threshold = None\<rparr>"
             and buffer = "replicate 512 (Fin 0)" and sampleRate = "Fin 1000"]
  by (simp add: silence_detect silence_body nullish_def)

text \<open>The exception of the theorem's last case does occur.\<close>

lemma detectPitchYIN_raises:
  "detectPitchYIN (replicate 512 (Fin 0)) NInf
     \<lparr>opt_minFreq = Some (Fin 50), opt_maxFreq = Some PInf, opt_threshold = None\<rparr>
     = Inl RangeError"
  by (simp add: detectPitchYIN_def nullish_def lag_min_def lag_max_def js_ge_def)

subsection \<open>The lag bounds of the search\<close>

text \<open>
  When both lag bounds are finite and the guard \<^verbatim>\<open>tauMin >= tauMax\<close> is passed,
  they are integers with \<open>2 \<le> tauMin < tauMax\<close>, and the result is that of the
  body of the function at these bounds.
\<close>

lemma lag_min_integer: "lag_min sampleRate maxFreq = Fin m \<Longrightarrow> \<exists>k. m = of_int k \<and> 2 \<le> k"
proof (cases "Math_floor (js_div sampleRate maxFreq)")
  case (Fin x)
  then obtain a where "x = of_int \<lfloor>a::real\<rfloor>"
    by (cases "js_div sampleRate maxFreq") auto
  moreover assume "lag_min sampleRate maxFreq = Fin m"
  ultimately show ?thesis
    using Fin by (auto simp: lag_min_def split: if_splits intro: exI [of _ 2])
qed (auto simp: lag_min_def)

lemma lag_max_integer: "lag_max bufSize sampleRate minFreq = Fin t \<Longrightarrow> \<exists>k. t = of_int k"
proof (cases "Math_floor (js_div sampleRate minFreq)")
  case (Fin x)
  then obtain a where "x = of_int \<lfloor>a::real\<rfloor>"
    by (cases "js_div sampleRate minFreq") auto
  moreover assume "lag_max bufSize sampleRate minFreq = Fin t"
  moreover have "real bufSize - 3 = of_int (int bufSize - 3)" by simp
  ultimately show ?thesis
    using Fin by (auto simp: lag_max_def split: if_splits simp del: of_int_diff)
next
  case PInf
  assume "lag_max bufSize sampleRate minFreq = Fin t"
  moreover have "real bufSize - 3 = of_int (int bufSize - 3)" by simp
  ultimately show ?thesis using PInf by (auto simp: lag_max_def simp del: of_int_diff)
qed (auto simp: lag_max_def)

lemma detectPitchYIN_body:
  assumes "\<not> length buffer < 512"
    and "lag_min sampleRate (nullish (opt_maxFreq options) (Fin 2000)) = Fin m"
    and "lag_max (length buffer) sampleRate (nullish (opt_minFreq options) (Fin 50)) = Fin t"
    and "\<not> js_ge (Fin m) (Fin t)"
  shows "detectPitchYIN buffer sampleRate options =
           Inr (yin_body buffer sampleRate (nullish (opt_minFreq options) (Fin 50))
                  (nullish (opt_maxFreq options) (Fin 2000))
                  (nullish (opt_threshold options) (Fin (1 / 10))) (nat \<lfloor>m\<rfloor>) (nat \<lfloor>t\<rfloor>)) \<and>
         2 \<le> nat \<lfloor>m\<rfloor> \<and> nat \<lfloor>m\<rfloor> < nat \<lfloor>t\<rfloor>"
proof -
  obtain k where k: "m = of_int k" "2 \<le> k" using lag_min_integer [OF assms(2)] by blast
  obtain l where l: "t = of_int l" using lag_max_integer [OF assms(3)] by blast
  have "m < t" using assms(4) by (simp add: js_ge_def)
  then have "k < l" using k l by simp
  then have bounds: "2 \<le> nat \<lfloor>m\<rfloor> \<and> nat \<lfloor>m\<rfloor> < nat \<lfloor>t\<rfloor>" using k l by simp
  have "\<not> t + 1 < 0" using \<open>m < t\<close> k by simp
  then show ?thesis
    using assms bounds by (simp add: detectPitchYIN_def Let_def)
qed

subsection \<open>A run on an impulse\<close>

text \<open>
  On the impulse block the difference function is 2 at the lags 1 and 2 and 1 at the
  lags 3, 4 and 5: only the first three indices contribute.
\<close>

lemma impulse_length: "length impulse_block = 512"
  by (simp add: impulse_block_def)

lemma impulse_nth: "i < 512 \<Longrightarrow> impulse_block ! i = (if i = 2 then Fin 1 else Fin 0)"
  by (auto simp: impulse_block_def nth_Cons split: nat.splits)

lemma upt3: "[0..<3] = [0, 1, 2]"
  by (simp add: upt_rec)

lemma impulse_difference:
  assumes "1 \<le> tau" "tau \<le> 5"
  shows "difference impulse_block tau = (if tau \<le> 2 then Fin 2 else Fin 1)"
proof -
  have "difference impulse_block tau =
     fold (\<lambda>i sum. let diff = js_sub (impulse_block ! i) (impulse_block ! (i + tau))
                    in js_add sum (js_mul diff diff)) [0..<3] (Fin 0)"
  proof (rule difference_tail)
    show "3 \<le> length impulse_block - tau"
      using assms by (simp add: impulse_length)
    fix i assume "3 \<le> i" "i + tau < length impulse_block"
    then have "impulse_block ! i = Fin 0" "impulse_block ! (i + tau) = Fin 0"
      by (simp_all add: impulse_nth impulse_length)
    then show "js_sub (impulse_block ! i) (impulse_block ! (i + tau)) = Fin 0"
      by (simp add: js_sub_def)
  qed
  moreover have "tau = 1 \<or> tau = 2 \<or> tau = 3 \<or> tau = 4 \<or> tau = 5"
    using assms by arith
  ultimately show ?thesis
    by (auto simp: upt3 impulse_nth js_sub_def)
qed

lemma zeros6: "replicate 6 (Fin 0) = [Fin 0, Fin 0, Fin 0, Fin 0, Fin 0, Fin 0]"
  by (simp add: numeral_eq_Suc)

lemma zeros4: "replicate 4 (Fin 0) = [Fin 0, Fin 0, Fin 0, Fin 0]"
  by (simp add: numeral_eq_Suc)

lemma impulse_difference_array5:
  "difference_array impulse_block 5 = [Fin 1, Fin 2, Fin 2, Fin 1, Fin 1, Fin 1]"
  by (simp add: difference_array_def impulse_difference upt_rec zeros6)

lemma impulse_difference_array3:
  "difference_array impulse_block 3 = [Fin 1, Fin 2, Fin 2, Fin 1]"
  by (simp add: difference_array_def impulse_difference upt_rec zeros4)

lemma impulse_cmnd5:
  "cmnd [Fin 1, Fin 2, Fin 2, Fin 1, Fin 1, Fin 1] 5 =
     [Fin 1, Fin 1, Fin 1, Fin (3 / 5), Fin (2 / 3), Fin (5 / 7)]"
  by (simp add: cmnd_def cmnd_step_def upt_rec js_or_def Let_def)

lemma impulse_cmnd3:
  "cmnd [Fin 1, Fin 2, Fin 2, Fin 1] 3 = [Fin 1, Fin 1, Fin 1, Fin (3 / 5)]"
  by (simp add: cmnd_def cmnd_step_def upt_rec js_or_def Let_def)

text \<open>
  No value is under the threshold 0.1, so the lag is the fallback's: the first global
  minimum, 3/5 at lag 3.
\<close>

lemma impulse_search5:
  "yin_search [Fin 1, Fin 1, Fin 1, Fin (3 / 5), Fin (2 / 3), Fin (5 / 7)] (Fin (1 / 10)) 3 5 = 3"
  by (simp add: yin_search_def fallback_search_def fallback_step_def upt_rec)

lemma impulse_search3:
  "yin_search [Fin 1, Fin 1, Fin 1, Fin (3 / 5)] (Fin (1 / 10)) 2 3 = 3"
  by (simp add: yin_search_def fallback_search_def fallback_step_def upt_rec)

lemma impulse_interpolate5:
  "interpolate [Fin 1, Fin 1, Fin 1, Fin (3 / 5), Fin (2 / 3), Fin (5 / 7)] 5 3 = Fin (47 / 14)"
  by (simp add: interpolate_def js_sub_def Let_def)

lemma impulse_refined:
  "spec_refined_lag [Fin 1, Fin 1, Fin 1, Fin (3 / 5), Fin (2 / 3), Fin (5 / 7)] 3 = Fin (47 / 14)"
  by (simp add: spec_refined_lag_def js_sub_def Let_def)

lemma impulse_body5:
  "yin_body impulse_block (Fin 3000) (Fin 600) (Fin 1000) (Fin (1 / 10)) 3 5 =
     Some (Fin (42000 / 47))"
  by (simp add: yin_body_def impulse_difference_array5 impulse_cmnd5 impulse_search5
        impulse_interpolate5 frequency_of_def js_gt_def)

lemma impulse_detect5:
  "detectPitchYIN impulse_block (Fin 3000)
     \<lparr>opt_minFreq = Some (Fin 600), opt_maxFreq = Some (Fin 1000), opt_threshold = None\<rparr> =
   Inr (Some (Fin (42000 / 47)))"
  using impulse_body5
  by (simp add: detectPitchYIN_def nullish_def lag_min_def lag_max_def js_ge_def impulse_length)

subsection \<open>Where the interpolation applies\<close>

lemma interpolate_upper: "interpolate yin tauMax (int tauMax) = Fin (real tauMax)"
  by (simp add: interpolate_def)

lemma interpolate_inner:
  assumes "1 < tau" "tau < tauMax"
  shows "interpolate yin tauMax (int tau) = spec_refined_lag yin tau"
proof -
  have "nat (int tau - 1) = tau - 1" "nat (int tau + 1) = tau + 1"
    using assms by auto
  then show ?thesis
    using assms by (simp add: interpolate_def spec_refined_lag_def Let_def)
qed

lemma frequency_of_quotient:
  "frequency_of sampleRate minFreq maxFreq betterTau = Some f \<Longrightarrow>
   f = js_div sampleRate betterTau"
  by (auto simp: frequency_of_def Let_def split: if_splits)

text \<open>
  C3, as the code has it. The interpolation is guarded by \<^verbatim>\<open>1 < tauEstimate\<close> and
  \<^verbatim>\<open>tauEstimate < tauMax\<close>, and the lower lag bound is at least 2. So with lag
  bounds \<open>2 \<le> tauMin < tauMax\<close> (what the guards of the function leave), every
  candidate lag from \<open>tauMin\<close> on and below \<open>tauMax\<close> is refined, the lower
  boundary \<open>tauMin\<close> included: the result is the frequency of the refined lag. Only a
  candidate equal to \<open>tauMax\<close> is left as it is: the result is then the frequency of
  \<open>tauMax\<close>, and when it is present it is \<open>sampleRate / tauMax\<close>.
\<close>

theorem interpolation_below_upper_bound:
  assumes "2 \<le> tauMin" and "tauMin < tauMax"
    and "yin = cmnd (difference_array buffer tauMax) tauMax"
    and "result = yin_body buffer sampleRate minFreq maxFreq threshold tauMin tauMax"
  shows "(\<forall>tau. tauMin \<le> tau \<and> tau < tauMax \<and> yin_search yin threshold tauMin tauMax = int tau
            \<longrightarrow> result = frequency_of sampleRate minFreq maxFreq (spec_refined_lag yin tau)) \<and>
         (yin_search yin threshold tauMin tauMax = int tauMax
            \<longrightarrow> result = frequency_of sampleRate minFreq maxFreq (Fin (real tauMax)) \<and>
                (\<forall>f. result = Some f \<longrightarrow> f = js_div sampleRate (Fin (real tauMax))))"
proof (intro conjI allI impI)
  fix tau
  assume tau: "tauMin \<le> tau \<and> tau < tauMax \<and> yin_search yin threshold tauMin tauMax = int tau"
  then have "1 < tau"
    using assms(1) by simp
  then have "interpolate yin tauMax (int tau) = spec_refined_lag yin tau"
    using tau by (simp add: interpolate_inner)
  then show "result = frequency_of sampleRate minFreq maxFreq (spec_refined_lag yin tau)"
    using tau by (simp add: assms(3,4) yin_body_def Let_def)
next
  assume top: "yin_search yin threshold tauMin tauMax = int tauMax"
  then show r: "result = frequency_of sampleRate minFreq maxFreq (Fin (real tauMax))"
    by (simp add: assms(3,4) yin_body_def Let_def interpolate_upper)
  fix f assume "result = Some f"
  then show "f = js_div sampleRate (Fin (real tauMax))"
    using r frequency_of_quotient by metis
qed

text \<open>
  On the impulse block at 3000 Hz: searched between 600 Hz and 1000 Hz (lags 3 to 5) the
  candidate is the lower boundary 3 and is refined to 47/14; searched between 1000 Hz
  and 1500 Hz (lags 2 to 3) the candidate is the upper boundary 3 and the result is
  3000 / 3.
\<close>

theorem interpolation_below_upper_bound_witness:
  "(2::nat) \<le> 3 \<and> (3::nat) < 5 \<and>
   yin_search (cmnd (difference_array impulse_block 5) 5) (Fin (1 / 10)) 3 5 = int 3 \<and>
   spec_refined_lag (cmnd (difference_array impulse_block 5) 5) 3 = Fin (47 / 14) \<and>
   yin_body impulse_block (Fin 3000) (Fin 600) (Fin 1000) (Fin (1 / 10)) 3 5 =
     frequency_of (Fin 3000) (Fin 600) (Fin 1000) (Fin (47 / 14)) \<and>
   (2::nat) \<le> 2 \<and> (2::nat) < 3 \<and>
   yin_search (cmnd (difference_array impulse_block 3) 3) (Fin (1 / 10)) 2 3 = int 3 \<and>
   yin_body impulse_block (Fin 3000) (Fin 1000) (Fin 1500) (Fin (1 / 10)) 2 3 = Some (Fin 1000) \<and>
   js_div (Fin 3000) (Fin (real 3)) = Fin 1000"
proof -
  have s5: "yin_search (cmnd (difference_array impulse_block 5) 5) (Fin (1 / 10)) 3 5 = int 3"
    by (simp add: impulse_difference_array5 impulse_cmnd5 impulse_search5)
  have s3: "yin_search (cmnd (difference_array impulse_block 3) 3) (Fin (1 / 10)) 2 3 = int 3"
    by (simp add: impulse_difference_array3 impulse_cmnd3 impulse_search3)
  have r: "spec_refined_lag (cmnd (difference_array impulse_block 5) 5) 3 = Fin (47 / 14)"
    by (simp add: impulse_difference_array5 impulse_cmnd5 impulse_refined)
  have lower: "yin_body impulse_block (Fin 3000) (Fin 600) (Fin 1000) (Fin (1 / 10)) 3 5 =
     frequency_of (Fin 3000) (Fin 600) (Fin 1000)
       (spec_refined_lag (cmnd (difference_array impulse_block 5) 5) 3)"
    using interpolation_below_upper_bound
            [where tauMin = 3 and tauMax = 5 and buffer = impulse_block
               and threshold = "Fin (1 / 10)" and sampleRate = "Fin 3000"
               and minFreq = "Fin 600" and maxFreq = "Fin 1000", OF _ _ refl refl] s5
    by simp
  have upper: "yin_body impulse_block (Fin 3000) (Fin 1000) (Fin 1500) (Fin (1 / 10)) 2 3 =
     frequency_of (Fin 3000) (Fin 1000) (Fin 1500) (Fin (real 3))"
    using interpolation_below_upper_bound
            [where tauMin = 2 and tauMax = 3 and buffer = impulse_block
               and threshold = "Fin (1 / 10)" and sampleRate = "Fin 3000"
               and minFreq = "Fin 1000" and maxFreq = "Fin 1500", OF _ _ refl refl] s3
    by simp
  have "frequency_of (Fin 3000) (Fin 1000) (Fin 1500) (Fin (real 3)) = Some (Fin 1000)"
    by (simp add: frequency_of_def js_gt_def)
  then show ?thesis
    using s5 s3 r lower upper by simp
qed

text \<open>
  The claim as the spec states it, that a candidate at either boundary is returned
  unrefined, fails at the lower boundary: on the impulse block at 3000 Hz, searched
  between 600 Hz and 1000 Hz, the lag bounds are 3 and 5, the candidate is 3, and the
  result is 42000/47 Hz (about 893.6), not 3000 / 3.
\<close>

theorem lower_boundary_is_refined:
  "length impulse_block = 512 \<and>
   lag_min (Fin 3000) (Fin 1000) = Fin 3 \<and>
   lag_max 512 (Fin 3000) (Fin 600) = Fin 5 \<and>
   yin_search (cmnd (difference_array impulse_block 5) 5) (Fin (1 / 10)) 3 5 = 3 \<and>
   detectPitchYIN impulse_block (Fin 3000)
     \<lparr>opt_minFreq = Some (Fin 600), opt_maxFreq = Some (Fin 1000), opt_threshold = None\<rparr> =
     Inr (Some (Fin (42000 / 47))) \<and>
   js_div (Fin 3000) (Fin 3) = Fin 1000 \<and>
   Fin (42000 / 47) \<noteq> Fin 1000"
  by (simp add: impulse_length lag_min_def lag_max_def impulse_difference_array5 impulse_cmnd5
        impulse_search5 impulse_detect5)

section \<open>Properties of the MicPitch class\<close>

subsection \<open>The constructor\<close>



subsection \<open>start and stop\<close>

lemma start_ok_running: "snd (start pf s) = None \<Longrightarrow> mp_running (fst (start pf s))"
  by (auto simp: start_def replaceStream_def loop_def Let_def
           split: option.splits if_splits prod.splits)

text \<open>
  C9. On a running instance \<^verbatim>\<open>start\<close> returns at once, with every field as it
  was and no error; on an instance that is not running \<^verbatim>\<open>stop\<close> changes nothing.
  Hence after a \<^verbatim>\<open>start\<close> that succeeded (so the instance is running) a second
  \<^verbatim>\<open>start\<close> changes nothing more, whatever the platform would answer, and a
  second \<^verbatim>\<open>stop\<close> changes nothing after the first. Each call is run to its end
  before the next.
\<close>

theorem start_stop_idempotent:
  "(mp_running s \<longrightarrow> start pf s = (s, None)) \<and>
   (\<not> mp_running s \<longrightarrow> stop s = s) \<and>
   (snd (start pf s) = None \<longrightarrow> start pf' (fst (start pf s)) = (fst (start pf s), None)) \<and>
   stop (stop s) = stop s"
proof -
  have "start pf' (fst (start pf s)) = (fst (start pf s), None)" if "snd (start pf s) = None"
    using start_ok_running [OF that] by (simp add: start_def)
  then show ?thesis
    by (simp add: start_def stop_def)
qed

text \<open>
  An idle instance with the default options, a platform that grants everything and one
  that has no Web Audio API: started on the first the instance runs, with a buffer of
  2048 zeros, and a second start returns at once even where a fresh start would fail.
\<close>

theorem start_stop_idempotent_witness:
  "(let idle = \<lparr>mp_options = merge_options
                   \<lparr>s_minFreq = None, s_maxFreq = None, s_threshold = None, s_fftSize = None,
                    s_updateIntervalMs = None, s_smoothing = None, s_averageSeconds = None,
                    s_minRms = None, s_deviceId = None\<rparr>,
                 mp_ctx = None, mp_stream = None, mp_source = None, mp_analyser = None,
                 mp_buffer = None, mp_timer = None, mp_listeners = [] :: unit listener list,
                 mp_emaFreq = None, mp_history = [], mp_running = False, mp_deviceId = None\<rparr>;
        pf = \<lparr>pf_AudioContext = Some 1, pf_createAnalyser = 2,
               pf_set_fftSize = (\<lambda>n. if n = Fin 2048 then Some 2048 else None),
               pf_getUserMedia = (\<lambda>device. Some 3), pf_createMediaStreamSource = 4,
               pf_setInterval = 5\<rparr>;
        none = \<lparr>pf_AudioContext = None, pf_createAnalyser = 0, pf_set_fftSize = (\<lambda>n. None),
                 pf_getUserMedia = (\<lambda>device. None), pf_createMediaStreamSource = 0,
                 pf_setInterval = 0\<rparr>;
        active = fst (start pf idle)
    in \<not> mp_running idle \<and> stop idle = idle \<and>
       start none idle = (idle, Some NoWebAudio) \<and>
       snd (start pf idle) = None \<and> mp_running active \<and>
       mp_buffer active = Some (replicate 2048 (Fin 0)) \<and>
       start none active = (active, None) \<and>
       stop active \<noteq> active \<and> stop (stop active) = stop active)"
proof -
  let ?idle = "\<lparr>mp_options = merge_options
                   \<lparr>s_minFreq = None, s_maxFreq = None, s_threshold = None, s_fftSize = None,
                    s_updateIntervalMs = None, s_smoothing = None, s_averageSeconds = None,
                    s_minRms = None, s_deviceId = None\<rparr>,
                 mp_ctx = None, mp_stream = None, mp_source = None, mp_analyser = None,
                 mp_buffer = None, mp_timer = None, mp_listeners = [] :: unit listener list,
                 mp_emaFreq = None, mp_history = [], mp_running = False, mp_deviceId = None\<rparr>"
  let ?pf = "\<lparr>pf_AudioContext = Some 1, pf_createAnalyser = 2,
               pf_set_fftSize = (\<lambda>n. if n = Fin 2048 then Some 2048 else None),
               pf_getUserMedia = (\<lambda>device. Some 3), pf_createMediaStreamSource = 4,
               pf_setInterval = 5\<rparr>"
  let ?none = "\<lparr>pf_AudioContext = None, pf_createAnalyser = 0, pf_set_fftSize = (\<lambda>n. None),
                 pf_getUserMedia = (\<lambda>device. None), pf_createMediaStreamSource = 0,
                 pf_setInterval = 0\<rparr>"
  have ok: "snd (start ?pf ?idle) = None"
    by (simp add: start_def replaceStream_def loop_def merge_options_def nullish_def)
  have run: "mp_running (fst (start ?pf ?idle))"
    by (simp add: start_def replaceStream_def loop_def merge_options_def nullish_def)
  have buf: "mp_buffer (fst (start ?pf ?idle)) = Some (replicate 2048 (Fin 0))"
    by (simp add: start_def replaceStream_def loop_def merge_options_def nullish_def)
  have fail: "start ?none ?idle = (?idle, Some NoWebAudio)"
    by (simp add: start_def)
  have changed: "stop (fst (start ?pf ?idle)) \<noteq> fst (start ?pf ?idle)"
    using run by (auto simp: stop_def dest: arg_cong [where f = mp_running])
  show ?thesis
    using start_stop_idempotent [of ?idle ?pf ?none]
          start_stop_idempotent [of "fst (start ?pf ?idle)" ?none ?none]
          ok run buf fail changed
    by (simp add: Let_def)
qed

subsection \<open>Smoothing\<close>




text \<open>The tick stores the result of this step as the new smoothed value.\<close>

lemma tick_emaFreq:
  assumes "mp_analyser s = Some a" "mp_buffer s = Some array" "mp_ctx s = Some c"
    and "estimate (mp_options s) (getFloatTimeDomainData samples array) sr = Inr freq"
  shows "mp_emaFreq (fst (tick samples sr now s w)) =
           smooth (o_smoothing (mp_options s)) (mp_emaFreq s) freq"
  using assms by (simp add: tick_def Let_def)

subsection \<open>Listeners\<close>

lemma emit_append: "emit freq (xs @ ys) w = emit freq ys (emit freq xs w)"
  by (induction xs arbitrary: w) (auto split: outcome.splits)

lemma emit_step: "emit freq (cb # cbs) w = emit freq cbs (world_after (cb freq w))"
  by (cases "cb freq w") auto

lemma emit_quiet: "emit freq (map quiet cbs) w = emit freq cbs w"
  by (induction cbs arbitrary: w) (auto simp: quiet_def split: outcome.splits)

text \<open>
  C8. A listener that throws does not stop the notification: whatever the listener
  \<open>cb\<close> does, the listeners after it are called, with the same frequency, on the
  world it left. So the notification does to the world what it would do if every
  listener returned, and a tick ends with the same instance (smoothed value and history
  among its fields), the same world and the same outcome as it would with the listeners
  that do not throw.
\<close>

theorem emit_isolates_faults:
  "emit freq (before @ cb # after) w =
     emit freq after (world_after (cb freq (emit freq before w))) \<and>
   emit freq listeners w = emit freq (map quiet listeners) w \<and>
   tick samples sr now (s\<lparr>mp_listeners := listeners\<rparr>) w =
     (case tick samples sr now (s\<lparr>mp_listeners := map quiet listeners\<rparr>) w of
        (s', w', e) \<Rightarrow> (s'\<lparr>mp_listeners := listeners\<rparr>, w', e))"
proof (intro conjI)
  show "emit freq (before @ cb # after) w =
          emit freq after (world_after (cb freq (emit freq before w)))"
    by (simp only: emit_append emit_step)
  show "emit freq listeners w = emit freq (map quiet listeners) w"
    by (simp only: emit_quiet)
  show "tick samples sr now (s\<lparr>mp_listeners := listeners\<rparr>) w =
     (case tick samples sr now (s\<lparr>mp_listeners := map quiet listeners\<rparr>) w of
        (s', w', e) \<Rightarrow> (s'\<lparr>mp_listeners := listeners\<rparr>, w', e))"
    by (simp add: emit_quiet tick_def Let_def split: option.splits sum.splits)
qed

text \<open>
  Three listeners on a world that is the log of the frequencies received: the second
  throws before it logs anything, the first and the third both log.
\<close>

lemma emit_example:
  "emit (Some (Fin 440))
     [\<lambda>freq log. Returned (log @ [freq]), \<lambda>freq log. Threw log, \<lambda>freq log. Returned (log @ [freq])]
     [] = [Some (Fin 440), Some (Fin 440)]"
  by simp

subsection \<open>Trimming the history\<close>

lemma trim_dropWhile: "trim cutoff h = dropWhile (\<lambda>item. js_lt (Fin (fst item)) cutoff) h"
  by (induction h) auto

lemma js_lt_mono: "a \<le> b \<Longrightarrow> js_lt (Fin b) c \<Longrightarrow> js_lt (Fin a) c"
  by (cases c) auto

lemma js_lt_not_ge: "js_lt a b \<Longrightarrow> \<not> js_ge a b"
  by (cases a; cases b) (auto simp: js_ge_def)

lemma js_ge_iff_not_lt: "c \<noteq> NaN \<Longrightarrow> js_ge (Fin a) c \<longleftrightarrow> \<not> js_lt (Fin a) c"
  by (cases c) (auto simp: js_ge_def)

lemma trim_splits:
  "\<exists>removed. h = removed @ trim cutoff h \<and>
     (\<forall>item\<in>set removed. js_lt (Fin (fst item)) cutoff)"
proof (intro exI conjI)
  show "h = takeWhile (\<lambda>item. js_lt (Fin (fst item)) cutoff) h @ trim cutoff h"
    by (simp add: trim_dropWhile)
  show "\<forall>item\<in>set (takeWhile (\<lambda>item. js_lt (Fin (fst item)) cutoff) h).
          js_lt (Fin (fst item)) cutoff"
    by (auto dest: set_takeWhileD)
qed

lemma trim_sorted_none_older:
  "sorted (map fst h) \<Longrightarrow> item \<in> set (trim cutoff h) \<Longrightarrow> \<not> js_lt (Fin (fst item)) cutoff"
proof (induction h)
  case Nil
  then show ?case by simp
next
  case (Cons x xs)
  show ?case
  proof (cases "js_lt (Fin (fst x)) cutoff")
    case True
    with Cons show ?thesis by simp
  next
    case False
    from Cons.prems have "fst x \<le> fst item"
      using False by auto
    with False show ?thesis
      using js_lt_mono by blast
  qed
qed

lemma trim_cutoff_finite:
  "o_averageSeconds options = Fin window \<Longrightarrow>
   trim_cutoff options now = Fin (now - max 1 window * 1000 - 200)"
  by (simp add: trim_cutoff_def js_sub_def max_def)

text \<open>
  C6. A tick that runs to its end on an instance with its analyser and buffer appends
  the entry \<open>(now, emaFreq)\<close> and trims at the cutoff
  \<open>now - max(1, averageSeconds) * 1000 - 200\<close>, computed as line 222 computes it
  (for a finite window of \<open>window\<close> seconds it is the number
  \<open>now - max 1 window * 1000 - 200\<close>): with the time stamps in order (those of the
  history, then \<open>now\<close>) the entries removed are a front part of the history, each
  older than the cutoff and none at or after it, and no entry that stays is older than
  the cutoff.
\<close>

theorem tick_trims_history:
  assumes chrono: "sorted (map fst (mp_history s) @ [now])"
    and ran: "mp_analyser s \<noteq> None" "mp_buffer s \<noteq> None"
             "tick samples sr now s w = (s', w', None)"
    and cutoff: "cutoff =
             js_sub (js_sub (Fin now)
                       (js_mul (Math_max (Fin 1) (o_averageSeconds (mp_options s))) (Fin 1000)))
                    (Fin 200)"
  shows "(\<exists>removed.
            mp_history s @ [(now, mp_emaFreq s')] = removed @ mp_history s' \<and>
            (\<forall>item\<in>set removed.
               js_lt (Fin (fst item)) cutoff \<and> \<not> js_ge (Fin (fst item)) cutoff) \<and>
            (\<forall>item\<in>set (mp_history s'). \<not> js_lt (Fin (fst item)) cutoff)) \<and>
         (\<forall>window. o_averageSeconds (mp_options s) = Fin window \<longrightarrow>
            cutoff = Fin (now - max 1 window * 1000 - 200))"
proof -
  let ?h = "mp_history s @ [(now, mp_emaFreq s')]"
  have c: "cutoff = trim_cutoff (mp_options s) now"
    by (simp add: cutoff trim_cutoff_def)
  have h': "mp_history s' = trim cutoff ?h"
    using ran unfolding c by (auto simp: tick_def Let_def split: option.splits sum.splits)
  have sorted: "sorted (map fst ?h)"
    using chrono by simp
  obtain removed where r: "?h = removed @ trim cutoff ?h"
      "\<forall>item\<in>set removed. js_lt (Fin (fst item)) cutoff"
    using trim_splits by blast
  have "\<exists>removed.
          ?h = removed @ mp_history s' \<and>
          (\<forall>item\<in>set removed.
             js_lt (Fin (fst item)) cutoff \<and> \<not> js_ge (Fin (fst item)) cutoff) \<and>
          (\<forall>item\<in>set (mp_history s'). \<not> js_lt (Fin (fst item)) cutoff)"
  proof (intro exI conjI)
    show "?h = removed @ mp_history s'"
      using r(1) h' by simp
    show "\<forall>item\<in>set removed.
            js_lt (Fin (fst item)) cutoff \<and> \<not> js_ge (Fin (fst item)) cutoff"
      using r(2) js_lt_not_ge by blast
    show "\<forall>item\<in>set (mp_history s'). \<not> js_lt (Fin (fst item)) cutoff"
      using trim_sorted_none_older [OF sorted] h' by simp
  qed
  moreover have "\<forall>window. o_averageSeconds (mp_options s) = Fin window \<longrightarrow>
                   cutoff = Fin (now - max 1 window * 1000 - 200)"
    using c trim_cutoff_finite by simp
  ultimately show ?thesis by blast
qed

text \<open>
  Ticks on silence at 2500 ms over the history with entries at 0, 1000, 1500 and
  2000 ms. With a window of half a second the cutoff is 1300 ms (the window counts as
  1 s, not as 0.5 s, for which the entry of 1500 ms would go too): the entries of 0 ms
  and 1000 ms go. With a window of 3 s the cutoff is -700 ms and nothing goes.
\<close>

theorem tick_trims_history_witness:
  "(let mic = (\<lambda>window.
          \<lparr>mp_options = merge_options
              \<lparr>s_minFreq = None, s_maxFreq = None, s_threshold = None, s_fftSize = None,
               s_updateIntervalMs = None, s_smoothing = None,
               s_averageSeconds = Some (Fin window), s_minRms = None, s_deviceId = None\<rparr>,
           mp_ctx = Some 1, mp_stream = Some 3, mp_source = Some 4, mp_analyser = Some 2,
           mp_buffer = Some (replicate 2048 (Fin 0)), mp_timer = Some 5,
           mp_listeners = [] :: unit listener list,
           mp_emaFreq = Some (Fin 441),
           mp_history = [(0, Some (Fin 440)), (1000, None), (1500, Some (Fin 442)),
                         (2000, Some (Fin 441))],
           mp_running = True, mp_deviceId = None\<rparr>);
        after = (\<lambda>window.
          fst (tick (replicate 2048 (Fin 0)) (Fin 48000) 2500 (mic window) ()))
    in sorted (map fst (mp_history (mic (1 / 2))) @ [2500]) \<and>
       mp_analyser (mic (1 / 2)) \<noteq> None \<and> mp_buffer (mic (1 / 2)) \<noteq> None \<and>
       tick (replicate 2048 (Fin 0)) (Fin 48000) 2500 (mic (1 / 2)) () =
         (after (1 / 2), (), None) \<and>
       o_averageSeconds (mp_options (mic (1 / 2))) = Fin (1 / 2) \<and>
       js_sub (js_sub (Fin 2500) (js_mul (Math_max (Fin 1) (Fin (1 / 2))) (Fin 1000))) (Fin 200)
         = Fin 1300 \<and>
       mp_history (after (1 / 2)) =
         [(1500, Some (Fin 442)), (2000, Some (Fin 441)), (2500, None)] \<and>
       (\<exists>removed.
          mp_history (mic (1 / 2)) @ [(2500, mp_emaFreq (after (1 / 2)))] =
            removed @ mp_history (after (1 / 2)) \<and>
          (\<forall>item\<in>set removed.
             js_lt (Fin (fst item)) (Fin 1300) \<and> \<not> js_ge (Fin (fst item)) (Fin 1300)) \<and>
          (\<forall>item\<in>set (mp_history (after (1 / 2))). \<not> js_lt (Fin (fst item)) (Fin 1300))) \<and>
       tick (replicate 2048 (Fin 0)) (Fin 48000) 2500 (mic 3) () = (after 3, (), None) \<and>
       o_averageSeconds (mp_options (mic 3)) = Fin 3 \<and>
       js_sub (js_sub (Fin 2500) (js_mul (Math_max (Fin 1) (Fin 3)) (Fin 1000))) (Fin 200)
         = Fin (- 700) \<and>
       mp_history (after 3) =
         [(0, Some (Fin 440)), (1000, None), (1500, Some (Fin 442)), (2000, Some (Fin 441)),
          (2500, None)] \<and>
       (\<exists>removed.
          mp_history (mic 3) @ [(2500, mp_emaFreq (after 3))] =
            removed @ mp_history (after 3) \<and>
          (\<forall>item\<in>set removed.
             js_lt (Fin (fst item)) (Fin (- 700)) \<and> \<not> js_ge (Fin (fst item)) (Fin (- 700))) \<and>
          (\<forall>item\<in>set (mp_history (after 3)). \<not> js_lt (Fin (fst item)) (Fin (- 700)))))"
proof -
  define options where "options = (\<lambda>window. merge_options
              \<lparr>s_minFreq = None, s_maxFreq = None, s_threshold = None, s_fftSize = None,
               s_updateIntervalMs = None, s_smoothing = None,
               s_averageSeconds = Some (Fin window), s_minRms = None, s_deviceId = None\<rparr>)"
  define mic where "mic = (\<lambda>window.
          \<lparr>mp_options = options window,
           mp_ctx = Some 1, mp_stream = Some 3, mp_source = Some 4, mp_analyser = Some 2,
           mp_buffer = Some (replicate 2048 (Fin 0)), mp_timer = Some 5,
           mp_listeners = [] :: unit listener list,
           mp_emaFreq = Some (Fin 441),
           mp_history = [(0, Some (Fin 440)), (1000, None), (1500, Some (Fin 442)),
                         (2000, Some (Fin 441))],
           mp_running = True, mp_deviceId = None\<rparr>)"
  define after where "after = (\<lambda>window.
          fst (tick (replicate 2048 (Fin 0)) (Fin 48000) 2500 (mic window) ()))"
  have fill: "getFloatTimeDomainData (replicate 2048 (Fin 0)) (replicate 2048 (Fin 0)) =
      replicate 2048 (Fin 0)"
    by (simp add: getFloatTimeDomainData_def)
  have est: "estimate (options window) (replicate 2048 (Fin 0)) (Fin 48000) = Inr None"
    for window
    by (simp add: options_def estimate_def computeRMS_silence merge_options_def nullish_def
          js_ge_def)
  have window: "o_averageSeconds (options window) = Fin window" for window
    by (simp add: options_def merge_options_def nullish_def)
  have half: "trim_cutoff (options (1 / 2)) 2500 = Fin 1300"
    by (simp add: trim_cutoff_finite [OF window])
  have three: "trim_cutoff (options 3) 2500 = Fin (- 700)"
    by (simp add: trim_cutoff_finite [OF window])
  have r: "tick (replicate 2048 (Fin 0)) (Fin 48000) 2500 (mic window) () =
             (after window, (), None)" for window
    by (simp add: after_def mic_def tick_def fill est Let_def)
  have ema: "mp_emaFreq (after window) = None" for window
    by (simp add: after_def mic_def tick_def fill est Let_def smooth_def)
  have hist_half: "mp_history (after (1 / 2)) =
      [(1500, Some (Fin 442)), (2000, Some (Fin 441)), (2500, None)]"
    by (simp add: after_def mic_def tick_def fill est Let_def smooth_def half)
  have hist_three: "mp_history (after 3) =
      [(0, Some (Fin 440)), (1000, None), (1500, Some (Fin 442)), (2000, Some (Fin 441)),
       (2500, None)]"
    by (simp add: after_def mic_def tick_def fill est Let_def smooth_def three)
  have chrono: "sorted (map fst (mp_history (mic window)) @ [2500])" for window
    by (simp add: mic_def)
  have a: "mp_analyser (mic window) \<noteq> None"
    and b: "mp_buffer (mic window) \<noteq> None"
    and o: "mp_options (mic window) = options window" for window
    by (simp_all add: mic_def)
  have ow: "o_averageSeconds (mp_options (mic window)) = Fin window" for window
    by (simp only: o window)
  have c_half: "js_sub (js_sub (Fin 2500) (js_mul (Math_max (Fin 1) (Fin (1 / 2))) (Fin 1000)))
                  (Fin 200) = Fin 1300"
    by (simp add: js_sub_def)
  have c_three: "js_sub (js_sub (Fin 2500) (js_mul (Math_max (Fin 1) (Fin 3)) (Fin 1000)))
                   (Fin 200) = Fin (- 700)"
    by (simp add: js_sub_def)
  have t_half: "\<exists>removed.
          mp_history (mic (1 / 2)) @ [(2500, mp_emaFreq (after (1 / 2)))] =
            removed @ mp_history (after (1 / 2)) \<and>
          (\<forall>item\<in>set removed.
             js_lt (Fin (fst item)) (Fin 1300) \<and> \<not> js_ge (Fin (fst item)) (Fin 1300)) \<and>
          (\<forall>item\<in>set (mp_history (after (1 / 2))). \<not> js_lt (Fin (fst item)) (Fin 1300))"
    using tick_trims_history [OF chrono a b r, of "Fin 1300" "1 / 2"]
    by (simp only: o window c_half)
  have t_three: "\<exists>removed.
          mp_history (mic 3) @ [(2500, mp_emaFreq (after 3))] =
            removed @ mp_history (after 3) \<and>
          (\<forall>item\<in>set removed.
             js_lt (Fin (fst item)) (Fin (- 700)) \<and> \<not> js_ge (Fin (fst item)) (Fin (- 700))) \<and>
          (\<forall>item\<in>set (mp_history (after 3)). \<not> js_lt (Fin (fst item)) (Fin (- 700)))"
    using tick_trims_history [OF chrono a b r, of "Fin (- 700)" 3]
    by (simp only: o window c_three)
  have "sorted (map fst (mp_history (mic (1 / 2))) @ [2500]) \<and>
       mp_analyser (mic (1 / 2)) \<noteq> None \<and> mp_buffer (mic (1 / 2)) \<noteq> None \<and>
       tick (replicate 2048 (Fin 0)) (Fin 48000) 2500 (mic (1 / 2)) () =
         (after (1 / 2), (), None) \<and>
       o_averageSeconds (mp_options (mic (1 / 2))) = Fin (1 / 2) \<and>
       js_sub (js_sub (Fin 2500) (js_mul (Math_max (Fin 1) (Fin (1 / 2))) (Fin 1000))) (Fin 200)
         = Fin 1300 \<and>
       mp_history (after (1 / 2)) =
         [(1500, Some (Fin 442)), (2000, Some (Fin 441)), (2500, None)] \<and>
       (\<exists>removed.
          mp_history (mic (1 / 2)) @ [(2500, mp_emaFreq (after (1 / 2)))] =
            removed @ mp_history (after (1 / 2)) \<and>
          (\<forall>item\<in>set removed.
             js_lt (Fin (fst item)) (Fin 1300) \<and> \<not> js_ge (Fin (fst item)) (Fin 1300)) \<and>
          (\<forall>item\<in>set (mp_history (after (1 / 2))). \<not> js_lt (Fin (fst item)) (Fin 1300))) \<and>
       tick (replicate 2048 (Fin 0)) (Fin 48000) 2500 (mic 3) () = (after 3, (), None) \<and>
       o_averageSeconds (mp_options (mic 3)) = Fin 3 \<and>
       js_sub (js_sub (Fin 2500) (js_mul (Math_max (Fin 1) (Fin 3)) (Fin 1000))) (Fin 200)
         = Fin (- 700) \<and>
       mp_history (after 3) =
         [(0, Some (Fin 440)), (1000, None), (1500, Some (Fin 442)), (2000, Some (Fin 441)),
          (2500, None)] \<and>
       (\<exists>removed.
          mp_history (mic 3) @ [(2500, mp_emaFreq (after 3))] =
            removed @ mp_history (after 3) \<and>
          (\<forall>item\<in>set removed.
             js_lt (Fin (fst item)) (Fin (- 700)) \<and> \<not> js_ge (Fin (fst item)) (Fin (- 700))) \<and>
          (\<forall>item\<in>set (mp_history (after 3)). \<not> js_lt (Fin (fst item)) (Fin (- 700))))"
    by (intro conjI chrono a b r ow c_half c_three hist_half hist_three t_half t_three)
  then show ?thesis
    unfolding Let_def after_def mic_def options_def .
qed

subsection \<open>The windowed average\<close>

lemma average_scan_takeWhile:
  "average_scan cutoff items (Fin a, c) =
     (let vals = List.map_filter (\<lambda>item. present_value (snd item))
                   (takeWhile (\<lambda>item. \<not> js_lt (Fin (fst item)) cutoff) items)
      in (Fin (a + sum_list vals), c + length vals))"
proof (induction items arbitrary: a c)
  case Nil
  then show ?case by (simp add: List.map_filter_simps)
next
  case (Cons item items)
  obtain t f where item: "item = (t, f)" by (cases item)
  show ?case
  proof (cases "js_lt (Fin t) cutoff")
    case True
    then show ?thesis by (simp add: item List.map_filter_simps)
  next
    case False
    show ?thesis
    proof (cases f)
      case None
      then show ?thesis
        using False Cons.IH by (simp add: item List.map_filter_simps Let_def)
    next
      case (Some v)
      then show ?thesis
        using False Cons.IH
        by (cases v) (simp_all add: item List.map_filter_simps Let_def algebra_simps)
    qed
  qed
qed

lemma takeWhile_newest_first:
  assumes "sorted_wrt (\<lambda>a b. fst b \<le> fst a) items"
  shows "takeWhile (\<lambda>item. \<not> js_lt (Fin (fst item)) cutoff) items =
         filter (\<lambda>item. \<not> js_lt (Fin (fst item)) cutoff) items"
  using assms
proof (induction items)
  case Nil
  then show ?case by simp
next
  case (Cons x xs)
  show ?case
  proof (cases "js_lt (Fin (fst x)) cutoff")
    case True
    have "\<forall>y\<in>set xs. js_lt (Fin (fst y)) cutoff"
      using Cons.prems True js_lt_mono by auto
    then have "filter (\<lambda>item. \<not> js_lt (Fin (fst item)) cutoff) xs = []"
      by (simp add: filter_empty_conv)
    with True show ?thesis by simp
  next
    case False
    with Cons show ?thesis by simp
  qed
qed

lemma sorted_rev_newest_first:
  "sorted (map fst h) \<Longrightarrow> sorted_wrt (\<lambda>a b. fst b \<le> fst a) (rev h)"
  by (simp add: sorted_wrt_rev sorted_map)

lemma map_filter_rev: "List.map_filter g (rev xs) = rev (List.map_filter g xs)"
  by (simp add: List.map_filter_def rev_map rev_filter)

text \<open>
  C5. On a history in chronological order, and for a window that is a number (the
  argument, or \<^verbatim>\<open>averageSeconds\<close> when it is left out), the scan from the newest
  entry backwards that stops at the first entry older than the cutoff
  \<open>now - window * 1000\<close> returns the mean of the present values of all entries at or
  after the cutoff, and \<^verbatim>\<open>null\<close> when there is none; entries without a value count
  for nothing.
\<close>

theorem getAverageFrequency_is_mean:
  assumes chrono: "sorted (map fst (mp_history s))"
    and window: "window = nullish seconds (o_averageSeconds (mp_options s))"
    and number: "window \<noteq> NaN"
  shows "getAverageFrequency now seconds s =
           mean (qualifying (js_sub (Fin now) (js_mul window (Fin 1000))) (mp_history s))"
proof -
  let ?cutoff = "js_sub (Fin now) (js_mul window (Fin 1000))"
  let ?P = "\<lambda>item :: real \<times> jsnum option. \<not> js_lt (Fin (fst item)) ?cutoff"
  let ?vals = "qualifying ?cutoff (mp_history s)"
  have cutoff: "?cutoff \<noteq> NaN"
    using number by (cases window) (auto simp: js_sub_def)
  have same: "filter (\<lambda>item. js_ge (Fin (fst item)) ?cutoff) h = filter ?P h" for h
    using js_ge_iff_not_lt [OF cutoff] by (intro filter_cong) auto
  have "takeWhile ?P (rev (mp_history s)) = rev (filter ?P (mp_history s))"
    using takeWhile_newest_first [OF sorted_rev_newest_first [OF chrono]]
    by (simp add: rev_filter)
  then have scan: "average_scan ?cutoff (rev (mp_history s)) (Fin 0, 0) =
      (Fin (sum_list ?vals), length ?vals)"
    by (simp add: average_scan_takeWhile qualifying_def same map_filter_rev Let_def)
  show ?thesis
    unfolding getAverageFrequency_def Let_def window [symmetric] scan
    by (simp add: mean_def)
qed

text \<open>
  Queried at 900 ms: over half a second the cutoff is 400 ms and the mean is that of 440
  and 442, the entries without a value left out; over the default window of 1 s all
  three values count; at 2000 ms no entry is inside the window.
\<close>

theorem getAverageFrequency_is_mean_witness:
  "(let s = \<lparr>mp_options = merge_options
                \<lparr>s_minFreq = None, s_maxFreq = None, s_threshold = None, s_fftSize = None,
                 s_updateIntervalMs = None, s_smoothing = None, s_averageSeconds = None,
                 s_minRms = None, s_deviceId = None\<rparr>,
              mp_ctx = None, mp_stream = None, mp_source = None, mp_analyser = None,
              mp_buffer = None, mp_timer = None, mp_listeners = [] :: unit listener list,
              mp_emaFreq = Some (Fin 442),
              mp_history = [(0, Some (Fin 100)), (400, Some (Fin 440)), (500, None),
                            (600, Some (Fin 442)), (700, None)],
              mp_running = True, mp_deviceId = None\<rparr>
    in sorted (map fst (mp_history s)) \<and> Fin (1 / 2) \<noteq> NaN \<and>
       js_sub (Fin 900) (js_mul (Fin (1 / 2)) (Fin 1000)) = Fin 400 \<and>
       qualifying (Fin 400) (mp_history s) = [440, 442] \<and>
       getAverageFrequency 900 (Some (Fin (1 / 2))) s = Some (Fin 441) \<and>
       getAverageFrequency 900 None s = Some (Fin (982 / 3)) \<and>
       getAverageFrequency 2000 None s = None)"
proof -
  let ?s = "\<lparr>mp_options = merge_options
                \<lparr>s_minFreq = None, s_maxFreq = None, s_threshold = None, s_fftSize = None,
                 s_updateIntervalMs = None, s_smoothing = None, s_averageSeconds = None,
                 s_minRms = None, s_deviceId = None\<rparr>,
              mp_ctx = None, mp_stream = None, mp_source = None, mp_analyser = None,
              mp_buffer = None, mp_timer = None, mp_listeners = [] :: unit listener list,
              mp_emaFreq = Some (Fin 442),
              mp_history = [(0, Some (Fin 100)), (400, Some (Fin 440)), (500, None),
                            (600, Some (Fin 442)), (700, None)],
              mp_running = True, mp_deviceId = None\<rparr>"
  have chrono: "sorted (map fst (mp_history ?s))" by simp
  have half: "getAverageFrequency 900 (Some (Fin (1 / 2))) ?s = Some (Fin 441)"
    using getAverageFrequency_is_mean [OF chrono, of "Fin (1 / 2)" "Some (Fin (1 / 2))" 900]
    by (simp add: nullish_def js_sub_def qualifying_def mean_def js_ge_def
          List.map_filter_simps)
  have dflt: "getAverageFrequency 900 None ?s = Some (Fin (982 / 3))"
    using getAverageFrequency_is_mean [OF chrono, of "Fin 1" None 900]
    by (simp add: nullish_def js_sub_def qualifying_def mean_def js_ge_def
          List.map_filter_simps merge_options_def)
  have late: "getAverageFrequency 2000 None ?s = None"
    using getAverageFrequency_is_mean [OF chrono, of "Fin 1" None 2000]
    by (simp add: nullish_def js_sub_def qualifying_def mean_def js_ge_def
          List.map_filter_simps merge_options_def)
  show ?thesis
    using half dflt late
    by (simp add: Let_def js_sub_def qualifying_def js_ge_def List.map_filter_simps)
qed

end
